theory Spec2Isabelle
  imports Main
begin

section \<open>Python values, errors and the external capabilities\<close>

text \<open>
  The transaction model of \<^verbatim>\<open>bigchaindb/common/transaction.py\<close>. Exceptions are values of
  \<open>error\<close>; a function that can raise returns \<open>error + 'a\<close> with \<open>Inl\<close> for the exception.
\<close>

datatype error =
    TypeError | ValueError | KeyError | IndexError | AttributeError
  | AmountError | KeypairMismatchException | InvalidHash | InvalidSignature
  | AssetIdMismatch | ParsingError

text \<open>
  The objects of the \<^verbatim>\<open>cryptoconditions\<close> package the module handles: an Ed25519 leaf with its
  public key and, once signed, its signature; a threshold node with its threshold and
  its subfulfillments in insertion order; any other fulfillment type (a preimage, say),
  opaque to this module.
\<close>

datatype ffill =
    Ed25519Fulfillment (public_key: string) (signature: "string option")
  | ThresholdSha256Fulfillment (threshold: nat) (subconditions: "ffill list")
  | OtherFulfillment string

text \<open>
  Python values as the module passes them around: JSON-like data, and live fulfillment
  objects (\<open>PObj\<close>). A dict is an association list in insertion order with distinct keys.
\<close>

datatype pyval =
    PNone
  | PInt int
  | PStr string
  | PList "pyval list"
  | PDict "(string \<times> pyval) list"
  | PObj ffill

text \<open>
  What the module imports and does not define: \<^verbatim>\<open>hash_data\<close> (SHA3-256, hex) and
  \<^verbatim>\<open>serialize\<close> of \<^verbatim>\<open>bigchaindb.common\<close>, the version constant, Python's \<^verbatim>\<open>int\<close> on a string
  (\<open>None\<close> is its ValueError), key derivation and the Ed25519 primitive, and the URI and
  detail-map codecs of \<^verbatim>\<open>cryptoconditions\<close>. They are parameters of the model.
\<close>

record env =
  hash_data :: "string \<Rightarrow> string"
  serialize :: "pyval \<Rightarrow> string"
  VERSION :: string
  int_of_str :: "string \<Rightarrow> int option"
  public_of :: "string \<Rightarrow> string"
  ed_sign :: "string \<Rightarrow> string \<Rightarrow> string"
  ed_verify :: "string \<Rightarrow> string \<Rightarrow> string \<Rightarrow> bool"
  serialize_uri :: "ffill \<Rightarrow> error + string"
  from_uri :: "string \<Rightarrow> error + ffill"
  condition_uri :: "ffill \<Rightarrow> string"
  ffill_to_dict :: "ffill \<Rightarrow> pyval"
  ffill_from_dict :: "pyval \<Rightarrow> error + ffill"
  validate_other :: "string \<Rightarrow> string \<Rightarrow> bool"

subsection \<open>Sequencing of calls that can raise\<close>

fun bind_err :: "error + 'a \<Rightarrow> ('a \<Rightarrow> error + 'b) \<Rightarrow> error + 'b" where
  "bind_err (Inl e) f = Inl e"
| "bind_err (Inr x) f = f x"

text \<open>A list comprehension whose body can raise: the first exception ends it.\<close>

fun map_err :: "('a \<Rightarrow> error + 'b) \<Rightarrow> 'a list \<Rightarrow> error + 'b list" where
  "map_err f [] = Inr []"
| "map_err f (x # xs) =
     (case f x of
        Inl e \<Rightarrow> Inl e
      | Inr y \<Rightarrow> (case map_err f xs of Inl e \<Rightarrow> Inl e | Inr ys \<Rightarrow> Inr (y # ys)))"

subsection \<open>Dict and list primitives\<close>

text \<open>\<^verbatim>\<open>d[k]\<close> for a string key: KeyError on a dict without it, TypeError on a value
  that is not subscriptable by a string.\<close>

fun py_getitem :: "pyval \<Rightarrow> string \<Rightarrow> error + pyval" where
  "py_getitem (PDict kvs) k = (case map_of kvs k of None \<Rightarrow> Inl KeyError | Some v \<Rightarrow> Inr v)"
| "py_getitem _ k = Inl TypeError"

text \<open>\<^verbatim>\<open>d[k] = v\<close> on a dict: an existing key keeps its place, a new key goes last.\<close>

fun dict_set :: "(string \<times> pyval) list \<Rightarrow> string \<Rightarrow> pyval \<Rightarrow> (string \<times> pyval) list" where
  "dict_set [] k v = [(k, v)]"
| "dict_set ((k', v') # kvs) k v =
     (if k' = k then (k, v) # kvs else (k', v') # dict_set kvs k v)"

text \<open>\<^verbatim>\<open>d.pop(k)\<close> removes the key.\<close>

definition dict_del :: "(string \<times> pyval) list \<Rightarrow> string \<Rightarrow> (string \<times> pyval) list" where
  "dict_del kvs k = filter (\<lambda>kv. fst kv \<noteq> k) kvs"

text \<open>\<^verbatim>\<open>for x in v\<close>: a list yields its items, a string its characters, a dict its keys;
  None, an int and a fulfillment object are not iterable.\<close>

fun py_iter :: "pyval \<Rightarrow> error + pyval list" where
  "py_iter (PList xs) = Inr xs"
| "py_iter (PStr s) = Inr (map (\<lambda>c. PStr [c]) s)"
| "py_iter (PDict kvs) = Inr (map (\<lambda>kv. PStr (fst kv)) kvs)"
| "py_iter _ = Inl TypeError"

text \<open>\<^verbatim>\<open>str(n)\<close> for an int: the decimal digits, with a minus sign below zero.\<close>

definition digit_char :: "nat \<Rightarrow> char" where
  "digit_char d = ''0123456789'' ! d"

fun str_nat :: "nat \<Rightarrow> string" where
  "str_nat n = (if n < 10 then [digit_char n] else str_nat (n div 10) @ [digit_char (n mod 10)])"

declare str_nat.simps [simp del]

definition py_str :: "int \<Rightarrow> string" where
  "py_str n = (if n < 0 then CHR ''-'' # str_nat (nat (- n)) else str_nat (nat n))"

text \<open>\<^verbatim>\<open>int(v)\<close>: an int is itself, a string is parsed (ValueError when it does not
  parse), anything else of the model is a TypeError.\<close>

fun py_int :: "env \<Rightarrow> pyval \<Rightarrow> error + int" where
  "py_int E (PInt n) = Inr n"
| "py_int E (PStr s) = (case int_of_str E s of None \<Rightarrow> Inl ValueError | Some n \<Rightarrow> Inr n)"
| "py_int E _ = Inl TypeError"

section \<open>TransactionLink, Input, Output, Transaction\<close>

record TransactionLink =
  link_txid :: pyval
  link_output :: pyval

record Input =
  input_fulfillment :: pyval
  input_owners_before :: pyval
  input_fulfills :: "TransactionLink option"

record Output =
  output_fulfillment :: pyval
  output_amount :: int
  output_public_keys :: pyval

record Transaction =
  tx_operation :: string
  tx_asset :: pyval
  tx_inputs :: "Input list"
  tx_outputs :: "Output list"
  tx_metadata :: pyval
  tx_version :: pyval

definition CREATE :: string where "CREATE = ''CREATE''"
definition TRANSFER :: string where "TRANSFER = ''TRANSFER''"
definition GENESIS :: string where "GENESIS = ''GENESIS''"
definition ALLOWED_OPERATIONS :: "string list" where
  "ALLOWED_OPERATIONS = [CREATE, TRANSFER, GENESIS]"

definition MAX_AMOUNT :: int where
  "MAX_AMOUNT = 9 * 10 ^ 18"

fun is_list :: "pyval \<Rightarrow> bool" where
  "is_list (PList xs) = True"
| "is_list _ = False"

fun is_dict :: "pyval \<Rightarrow> bool" where
  "is_dict (PDict kvs) = True"
| "is_dict _ = False"

text \<open>\<^verbatim>\<open>isinstance(v, dict) and k in v\<close>.\<close>

fun dict_has :: "pyval \<Rightarrow> string \<Rightarrow> bool" where
  "dict_has (PDict kvs) k = (map_of kvs k \<noteq> None)"
| "dict_has _ k = False"

subsection \<open>Input.__init__ and Input.to_dict\<close>

definition Input_init :: "pyval \<Rightarrow> pyval \<Rightarrow> TransactionLink option \<Rightarrow> error + Input" where
  "Input_init ff owners fulfills =
     (if \<not> is_list owners then Inl TypeError
      else Inr \<lparr>input_fulfillment = ff, input_owners_before = owners, input_fulfills = fulfills\<rparr>)"

definition TransactionLink_to_dict :: "TransactionLink \<Rightarrow> pyval" where
  "TransactionLink_to_dict l =
     (if link_txid l = PNone \<and> link_output l = PNone then PNone
      else PDict [(''txid'', link_txid l), (''output'', link_output l)])"

text \<open>The fulfillment of an input in dict form: its URI when \<^verbatim>\<open>serialize_uri\<close> returns,
  its detail map when that raises TypeError or AttributeError (an unsigned fulfillment);
  a value that is no fulfillment object has neither method, and the AttributeError of
  the second call is not caught.\<close>

fun Input_fulfillment_dict :: "env \<Rightarrow> pyval \<Rightarrow> error + pyval" where
  "Input_fulfillment_dict E (PObj f) =
     (case serialize_uri E f of
        Inr u \<Rightarrow> Inr (PStr u)
      | Inl e \<Rightarrow> (if e = TypeError \<or> e = AttributeError then Inr (ffill_to_dict E f) else Inl e))"
| "Input_fulfillment_dict E _ = Inl AttributeError"

definition Input_to_dict :: "env \<Rightarrow> Input \<Rightarrow> error + pyval" where
  "Input_to_dict E i =
     bind_err (Input_fulfillment_dict E (input_fulfillment i)) (\<lambda>fulfillment.
       let fulfills = (case input_fulfills i of None \<Rightarrow> PNone | Some l \<Rightarrow> TransactionLink_to_dict l)
       in Inr (PDict [(''owners_before'', input_owners_before i),
                      (''fulfills'', fulfills),
                      (''fulfillment'', fulfillment)]))"

subsection \<open>Output.__init__ and Output.to_dict\<close>

definition Output_init :: "pyval \<Rightarrow> pyval \<Rightarrow> int \<Rightarrow> error + Output" where
  "Output_init ff public_keys amount =
     (if \<not> is_list public_keys \<and> public_keys \<noteq> PNone then Inl TypeError
      else if amount < 1 then Inl AmountError
      else if amount > MAX_AMOUNT then Inl AmountError
      else Inr \<lparr>output_fulfillment = ff, output_amount = amount, output_public_keys = public_keys\<rparr>)"

fun Output_condition_dict :: "env \<Rightarrow> pyval \<Rightarrow> (string \<times> pyval) list" where
  "Output_condition_dict E (PObj f) =
     [(''details'', ffill_to_dict E f), (''uri'', PStr (condition_uri E f))]"
| "Output_condition_dict E v = [(''uri'', v)]"

definition Output_to_dict :: "env \<Rightarrow> Output \<Rightarrow> pyval" where
  "Output_to_dict E out =
     PDict [(''public_keys'', output_public_keys out),
            (''condition'', PDict (Output_condition_dict E (output_fulfillment out))),
            (''amount'', PStr (py_str (output_amount out)))]"

subsection \<open>Transaction.__init__, _remove_signatures, to_dict, validate_id\<close>

definition Transaction_init ::
  "env \<Rightarrow> string \<Rightarrow> pyval \<Rightarrow> Input list \<Rightarrow> Output list \<Rightarrow> pyval \<Rightarrow> pyval \<Rightarrow> error + Transaction" where
  "Transaction_init E operation asset inputs outputs metadata version =
     (if operation \<notin> set ALLOWED_OPERATIONS then Inl ValueError
      else if (operation = CREATE \<or> operation = GENESIS) \<and> asset \<noteq> PNone \<and> \<not> dict_has asset ''data''
        then Inl TypeError
      else if operation = TRANSFER \<and> \<not> dict_has asset ''id'' then Inl TypeError
      else if metadata \<noteq> PNone \<and> \<not> is_dict metadata then Inl TypeError
      else Inr \<lparr>tx_operation = operation, tx_asset = asset, tx_inputs = inputs,
                tx_outputs = outputs, tx_metadata = metadata,
                tx_version = (if version \<noteq> PNone then version else PStr (VERSION E))\<rparr>)"

text \<open>One step of the loop of \<^verbatim>\<open>_remove_signatures\<close>: \<^verbatim>\<open>input_['fulfillment'] = None\<close>,
  a TypeError on an item that is not a dict.\<close>

fun strip_input :: "pyval \<Rightarrow> error + pyval" where
  "strip_input (PDict kvs) = Inr (PDict (dict_set kvs ''fulfillment'' PNone))"
| "strip_input _ = Inl TypeError"

text \<open>\<^verbatim>\<open>_remove_signatures\<close> works on a deep copy, which is the value itself here, and
  returns it with its \<^verbatim>\<open>inputs\<close> replaced. The loop mutates the items of
  \<^verbatim>\<open>tx_dict['inputs']\<close>; when that is a list the list holds the mutated items, and a
  string or a dict there only iterates (and fails on its first item).\<close>

definition remove_signatures :: "pyval \<Rightarrow> error + pyval" where
  "remove_signatures tx_dict =
     bind_err (py_getitem tx_dict ''inputs'') (\<lambda>ins.
     bind_err (py_iter ins) (\<lambda>items.
     bind_err (map_err strip_input items) (\<lambda>items'.
       (case tx_dict of
          PDict kvs \<Rightarrow> Inr (PDict (if is_list ins then dict_set kvs ''inputs'' (PList items') else kvs))
        | _ \<Rightarrow> Inl TypeError))))"

definition Transaction_to_dict :: "env \<Rightarrow> Transaction \<Rightarrow> error + pyval" where
  "Transaction_to_dict E T =
     bind_err (map_err (Input_to_dict E) (tx_inputs T)) (\<lambda>ins.
       let tx = [(''inputs'', PList ins),
                 (''outputs'', PList (map (Output_to_dict E) (tx_outputs T))),
                 (''operation'', PStr (tx_operation T)),
                 (''metadata'', tx_metadata T),
                 (''asset'', tx_asset T),
                 (''version'', tx_version T)]
       in bind_err (remove_signatures (PDict tx)) (\<lambda>tx_no_signatures.
            let tx_serialized = serialize E tx_no_signatures;
                tx_id = hash_data E tx_serialized
            in Inr (PDict (tx @ [(''id'', PStr tx_id)]))))"

text \<open>The property \<^verbatim>\<open>id\<close>: \<^verbatim>\<open>self.to_dict()['id']\<close>.\<close>

definition tx_id :: "env \<Rightarrow> Transaction \<Rightarrow> error + pyval" where
  "tx_id E T = bind_err (Transaction_to_dict E T) (\<lambda>d. py_getitem d ''id'')"

text \<open>\<^verbatim>\<open>d.pop(k)\<close>: the value and the dict without the key; KeyError without the key,
  TypeError on a list (its \<^verbatim>\<open>pop\<close> wants an index), AttributeError on a value with no
  \<^verbatim>\<open>pop\<close>.\<close>

fun py_pop :: "pyval \<Rightarrow> string \<Rightarrow> error + (pyval \<times> pyval)" where
  "py_pop (PDict kvs) k =
     (case map_of kvs k of None \<Rightarrow> Inl KeyError | Some v \<Rightarrow> Inr (v, PDict (dict_del kvs k)))"
| "py_pop (PList xs) k = Inl TypeError"
| "py_pop _ k = Inl AttributeError"

definition validate_id :: "env \<Rightarrow> pyval \<Rightarrow> error + unit" where
  "validate_id E tx_body =
     (case py_pop tx_body ''id'' of
        Inl e \<Rightarrow> (if e = KeyError then Inl InvalidHash else Inl e)
      | Inr (proposed_tx_id, body) \<Rightarrow>
          bind_err (remove_signatures body) (\<lambda>tx_body_no_signatures.
            let tx_body_serialized = serialize E tx_body_no_signatures;
                valid_tx_id = hash_data E tx_body_serialized
            in if proposed_tx_id \<noteq> PStr valid_tx_id then Inl InvalidHash else Inr ()))"

subsection \<open>from_dict\<close>

text \<open>\<^verbatim>\<open>Fulfillment.from_uri\<close> on a Python value: a string is parsed by the library, and
  a value that is no string raises the TypeError that \<^verbatim>\<open>Input.from_dict\<close> catches.\<close>

fun Fulfillment_from_uri :: "env \<Rightarrow> pyval \<Rightarrow> error + ffill" where
  "Fulfillment_from_uri E (PStr u) = from_uri E u"
| "Fulfillment_from_uri E _ = Inl TypeError"

definition empty_link :: TransactionLink where
  "empty_link = \<lparr>link_txid = PNone, link_output = PNone\<rparr>"

definition TransactionLink_from_dict :: "pyval \<Rightarrow> error + TransactionLink" where
  "TransactionLink_from_dict link =
     (case py_getitem link ''txid'' of
        Inl e \<Rightarrow> (if e = TypeError then Inr empty_link else Inl e)
      | Inr t \<Rightarrow>
          (case py_getitem link ''output'' of
             Inl e \<Rightarrow> (if e = TypeError then Inr empty_link else Inl e)
           | Inr out \<Rightarrow> Inr \<lparr>link_txid = t, link_output = out\<rparr>))"

definition Input_from_dict :: "env \<Rightarrow> pyval \<Rightarrow> error + Input" where
  "Input_from_dict E data =
     bind_err
       (case bind_err (py_getitem data ''fulfillment'') (Fulfillment_from_uri E) of
          Inr f \<Rightarrow> Inr f
        | Inl e \<Rightarrow>
            (if e = ValueError then Inl InvalidSignature
             else if e = TypeError
               then bind_err (py_getitem data ''fulfillment'') (ffill_from_dict E)
             else Inl e))
       (\<lambda>fulfillment.
     bind_err (py_getitem data ''fulfills'') (\<lambda>link.
     bind_err (TransactionLink_from_dict link) (\<lambda>fulfills.
     bind_err (py_getitem data ''owners_before'') (\<lambda>owners.
       Input_init (PObj fulfillment) owners (Some fulfills)))))"

text \<open>The first \<^verbatim>\<open>try\<close> of \<^verbatim>\<open>Output.from_dict\<close>: the fulfillment parsed from the details, and
  on any KeyError (no \<^verbatim>\<open>details\<close>, the hashlock case) the condition's URI instead.\<close>

definition Output_from_dict_fulfillment :: "env \<Rightarrow> pyval \<Rightarrow> error + pyval" where
  "Output_from_dict_fulfillment E data =
     (case bind_err (py_getitem data ''condition'') (\<lambda>c.
             bind_err (py_getitem c ''details'') (ffill_from_dict E)) of
        Inr f \<Rightarrow> Inr (PObj f)
      | Inl e \<Rightarrow>
          (if e = KeyError
             then bind_err (py_getitem data ''condition'') (\<lambda>c. py_getitem c ''uri'')
           else Inl e))"

definition Output_from_dict :: "env \<Rightarrow> pyval \<Rightarrow> error + Output" where
  "Output_from_dict E data =
     bind_err (Output_from_dict_fulfillment E data) (\<lambda>fulfillment.
     bind_err
       (case bind_err (py_getitem data ''amount'') (py_int E) of
          Inr n \<Rightarrow> Inr n
        | Inl e \<Rightarrow> (if e = ValueError then Inl AmountError else Inl e))
       (\<lambda>amount.
     bind_err (py_getitem data ''public_keys'') (\<lambda>public_keys.
       Output_init fulfillment public_keys amount)))"

definition Transaction_from_dict :: "env \<Rightarrow> pyval \<Rightarrow> error + Transaction" where
  "Transaction_from_dict E tx =
     bind_err (validate_id E tx) (\<lambda>_.
     bind_err (py_getitem tx ''inputs'') (\<lambda>ins.
     bind_err (py_iter ins) (\<lambda>in_items.
     bind_err (map_err (Input_from_dict E) in_items) (\<lambda>inputs.
     bind_err (py_getitem tx ''outputs'') (\<lambda>outs.
     bind_err (py_iter outs) (\<lambda>out_items.
     bind_err (map_err (Output_from_dict E) out_items) (\<lambda>outputs.
     bind_err (py_getitem tx ''operation'') (\<lambda>operation.
     bind_err (py_getitem tx ''asset'') (\<lambda>asset.
     bind_err (py_getitem tx ''metadata'') (\<lambda>metadata.
     bind_err (py_getitem tx ''version'') (\<lambda>version.
       (case operation of
          PStr op \<Rightarrow> Transaction_init E op asset inputs outputs metadata version
        | _ \<Rightarrow> Inl ValueError))))))))))))"

text \<open>\<^verbatim>\<open>Transaction.__eq__\<close>: both dict forms are built and compared; an
  AttributeError while building the other one makes the answer False. Both dicts come
  from \<^verbatim>\<open>to_dict\<close>, with their keys in the same order.\<close>

definition Transaction_eq :: "env \<Rightarrow> Transaction \<Rightarrow> Transaction \<Rightarrow> error + bool" where
  "Transaction_eq E T other =
     (case Transaction_to_dict E other of
        Inl e \<Rightarrow> (if e = AttributeError then Inr False else Inl e)
      | Inr d' \<Rightarrow> bind_err (Transaction_to_dict E T) (\<lambda>d. Inr (d = d')))"

section \<open>Output.generate\<close>

text \<open>\<^verbatim>\<open>Ed25519Fulfillment(public_key=x)\<close> inside \<^verbatim>\<open>try ... except TypeError: ffill = x\<close>:
  a string becomes an unsigned leaf, any other value is taken as it is (the source
  assumes it is a fulfillment object).\<close>

fun leaf_or_self :: "pyval \<Rightarrow> pyval" where
  "leaf_or_self (PStr pk) = PObj (Ed25519Fulfillment pk None)"
| "leaf_or_self v = v"

text \<open>\<^verbatim>\<open>initial.add_subfulfillment(ffill)\<close>: the library appends a fulfillment object to
  a threshold node and raises TypeError for anything else.\<close>

fun add_subfulfillment :: "ffill \<Rightarrow> pyval \<Rightarrow> error + ffill" where
  "add_subfulfillment (ThresholdSha256Fulfillment k subs) (PObj f) =
     Inr (ThresholdSha256Fulfillment k (subs @ [f]))"
| "add_subfulfillment (ThresholdSha256Fulfillment k subs) _ = Inl TypeError"
| "add_subfulfillment _ _ = Inl AttributeError"

text \<open>\<^verbatim>\<open>_gen_condition\<close>, and \<^verbatim>\<open>reduce(cls._gen_condition, items, initial)\<close>. A dict item
  reaches \<^verbatim>\<open>new_public_keys.pop()\<close>, which raises TypeError for the missing argument.\<close>

fun gen_condition :: "ffill \<Rightarrow> pyval \<Rightarrow> error + ffill"
  and reduce_gen_condition :: "pyval list \<Rightarrow> ffill \<Rightarrow> error + ffill" where
  "gen_condition initial (PList new_public_keys) =
     (if length new_public_keys > 1
      then (case reduce_gen_condition new_public_keys
                   (ThresholdSha256Fulfillment (length new_public_keys) []) of
              Inl e \<Rightarrow> Inl e
            | Inr ffill \<Rightarrow> add_subfulfillment initial (PObj ffill))
      else Inl ValueError)"
| "gen_condition initial (PDict kvs) = Inl TypeError"
| "gen_condition initial v = add_subfulfillment initial (leaf_or_self v)"
| "reduce_gen_condition [] initial = Inr initial"
| "reduce_gen_condition (x # xs) initial =
     (case gen_condition initial x of
        Inl e \<Rightarrow> Inl e
      | Inr initial' \<Rightarrow> reduce_gen_condition xs initial')"

text \<open>\<^verbatim>\<open>Output.generate\<close>. \<^verbatim>\<open>len(public_keys)\<close> comes first and raises TypeError on None,
  an int or an object; a string or a dict has a length and fails the list check after
  the amount check.\<close>

fun has_len :: "pyval \<Rightarrow> bool" where
  "has_len (PList xs) = True"
| "has_len (PStr s) = True"
| "has_len (PDict kvs) = True"
| "has_len _ = False"

definition Output_generate :: "pyval \<Rightarrow> int \<Rightarrow> error + Output" where
  "Output_generate public_keys amount =
     (if \<not> has_len public_keys then Inl TypeError
      else if amount < 1 then Inl AmountError
      else (case public_keys of
              PList keys \<Rightarrow>
                (case keys of
                   [] \<Rightarrow> Inl ValueError
                 | k # ks \<Rightarrow>
                     if ks = [] \<and> \<not> is_list k
                     then Output_init (leaf_or_self k) public_keys amount
                     else (case reduce_gen_condition keys
                                  (ThresholdSha256Fulfillment (length keys) []) of
                             Inl e \<Rightarrow> Inl e
                           | Inr threshold_cond \<Rightarrow>
                               Output_init (PObj threshold_cond) public_keys amount))
            | _ \<Rightarrow> Inl TypeError))"

definition Input_generate :: "pyval \<Rightarrow> error + Input" where
  "Input_generate public_keys =
     bind_err (Output_generate public_keys 1) (\<lambda>out.
       Input_init (output_fulfillment out) public_keys None)"

section \<open>Transaction.create, Transaction.transfer, to_inputs\<close>

text \<open>Recipients are typed as pairs of an owner list and an amount, so the tuple check of
  the source always passes.\<close>

definition Transaction_create ::
  "env \<Rightarrow> pyval \<Rightarrow> (pyval \<times> int) list \<Rightarrow> pyval \<Rightarrow> pyval \<Rightarrow> error + Transaction" where
  "Transaction_create E tx_signers recipients metadata asset =
     (case tx_signers of
        PList signers \<Rightarrow>
          if signers = [] then Inl ValueError
          else if recipients = [] then Inl ValueError
          else if \<not> (asset = PNone \<or> is_dict asset) then Inl TypeError
          else
            bind_err (map_err (\<lambda>r. Output_generate (fst r) (snd r)) recipients) (\<lambda>outputs.
            bind_err (Input_generate tx_signers) (\<lambda>inp.
              Transaction_init E CREATE (PDict [(''data'', asset)]) [inp] outputs metadata PNone))
      | _ \<Rightarrow> Inl TypeError)"

definition Transaction_transfer ::
  "env \<Rightarrow> Input list \<Rightarrow> (pyval \<times> int) list \<Rightarrow> pyval \<Rightarrow> pyval \<Rightarrow> error + Transaction" where
  "Transaction_transfer E inputs recipients asset_id metadata =
     (if inputs = [] then Inl ValueError
      else if recipients = [] then Inl ValueError
      else
        bind_err (map_err (\<lambda>r. Output_generate (fst r) (snd r)) recipients) (\<lambda>outputs.
          (case asset_id of
             PStr a \<Rightarrow> Transaction_init E TRANSFER (PDict [(''id'', asset_id)]) inputs outputs metadata PNone
           | _ \<Rightarrow> Inl TypeError)))"



section \<open>Signing\<close>

text \<open>A dict key or a set element must be hashable: a list or a dict raises TypeError.\<close>

fun hashable :: "pyval \<Rightarrow> bool" where
  "hashable (PList xs) = False"
| "hashable (PDict kvs) = False"
| "hashable _ = True"

text \<open>\<^verbatim>\<open>key_pairs[k]\<close> on the dict from public keys (strings) to private keys.\<close>

fun key_lookup :: "(string \<times> string) list \<Rightarrow> pyval \<Rightarrow> error + string" where
  "key_lookup key_pairs (PStr pk) =
     (case map_of key_pairs pk of None \<Rightarrow> Inl KeyError | Some sk \<Rightarrow> Inr sk)"
| "key_lookup key_pairs v = (if hashable v then Inl KeyError else Inl TypeError)"

text \<open>\<^verbatim>\<open>v[0]\<close>.\<close>

fun py_first :: "pyval \<Rightarrow> error + pyval" where
  "py_first (PList []) = Inl IndexError"
| "py_first (PList (x # xs)) = Inr x"
| "py_first (PStr []) = Inl IndexError"
| "py_first (PStr (c # cs)) = Inr (PStr [c])"
| "py_first (PDict kvs) = Inl KeyError"
| "py_first _ = Inl TypeError"



text \<open>\<^verbatim>\<open>leaf.sign(message, private_key)\<close> on an Ed25519 leaf stores the signature.\<close>

fun ffill_sign :: "env \<Rightarrow> string \<Rightarrow> string \<Rightarrow> ffill \<Rightarrow> ffill" where
  "ffill_sign E msg sk (Ed25519Fulfillment pk sig) = Ed25519Fulfillment pk (Some (ed_sign E msg sk))"
| "ffill_sign E msg sk f = f"

text \<open>\<^verbatim>\<open>get_subcondition_from_vk\<close> of a threshold node: the Ed25519 leaves below it whose
  public key is \<open>vk\<close>, searched through nested thresholds.\<close>

fun get_subcondition_from_vk :: "ffill \<Rightarrow> string \<Rightarrow> ffill list" where
  "get_subcondition_from_vk (Ed25519Fulfillment pk sig) vk =
     (if pk = vk then [Ed25519Fulfillment pk sig] else [])"
| "get_subcondition_from_vk (ThresholdSha256Fulfillment k subs) vk =
     concat (map (\<lambda>c. get_subcondition_from_vk c vk) subs)"
| "get_subcondition_from_vk (OtherFulfillment s) vk = []"

text \<open>The loop \<^verbatim>\<open>for subffill in subffills: subffill.sign(...)\<close> signs those leaves in
  place, inside the tree they belong to.\<close>

fun sign_subffills :: "env \<Rightarrow> string \<Rightarrow> string \<Rightarrow> string \<Rightarrow> ffill \<Rightarrow> ffill" where
  "sign_subffills E msg vk sk (Ed25519Fulfillment pk sig) =
     (if pk = vk then Ed25519Fulfillment pk (Some (ed_sign E msg sk)) else Ed25519Fulfillment pk sig)"
| "sign_subffills E msg vk sk (ThresholdSha256Fulfillment k subs) =
     ThresholdSha256Fulfillment k (map (sign_subffills E msg vk sk) subs)"
| "sign_subffills E msg vk sk (OtherFulfillment s) = OtherFulfillment s"

text \<open>The subfulfillments found for an owner; an owner that is no string matches none.\<close>

fun owner_subffills :: "ffill \<Rightarrow> pyval \<Rightarrow> ffill list" where
  "owner_subffills (ThresholdSha256Fulfillment k subs) (PStr vk) =
     get_subcondition_from_vk (ThresholdSha256Fulfillment k subs) vk"
| "owner_subffills _ _ = []"

text \<open>\<^verbatim>\<open>_sign_simple_signature_fulfillment\<close>: the signed copy of the input, which the
  caller stores at \<open>index\<close>.\<close>

definition sign_simple_signature_fulfillment ::
  "env \<Rightarrow> Input \<Rightarrow> ffill \<Rightarrow> string \<Rightarrow> (string \<times> string) list \<Rightarrow> error + Input" where
  "sign_simple_signature_fulfillment E input ff tx_serialized key_pairs =
     bind_err (py_first (input_owners_before input)) (\<lambda>public_key.
       (case key_lookup key_pairs public_key of
          Inl e \<Rightarrow> (if e = KeyError then Inl KeypairMismatchException else Inl e)
        | Inr sk \<Rightarrow> Inr (input\<lparr>input_fulfillment := PObj (ffill_sign E tx_serialized sk ff)\<rparr>)))"

text \<open>The loop of \<^verbatim>\<open>_sign_threshold_signature_fulfillment\<close> over the distinct owners.\<close>

fun sign_owners ::
  "env \<Rightarrow> string \<Rightarrow> (string \<times> string) list \<Rightarrow> pyval list \<Rightarrow> ffill \<Rightarrow> error + ffill" where
  "sign_owners E msg key_pairs [] ff = Inr ff"
| "sign_owners E msg key_pairs (owner_before # rest) ff =
     (if owner_subffills ff owner_before = [] then Inl KeypairMismatchException
      else (case key_lookup key_pairs owner_before of
              Inl e \<Rightarrow> (if e = KeyError then Inl KeypairMismatchException else Inl e)
            | Inr sk \<Rightarrow>
                (case owner_before of
                   PStr vk \<Rightarrow> sign_owners E msg key_pairs rest (sign_subffills E msg vk sk ff)
                 | _ \<Rightarrow> sign_owners E msg key_pairs rest ff)))"

text \<open>\<^verbatim>\<open>set(input_.owners_before)\<close>: every element must be hashable; the distinct owners
  are taken in the order of their first occurrence (the loop's outcome does not depend
  on the order: every failure is the same exception, and each leaf is signed with the
  key of its own public key).\<close>

definition py_set :: "pyval \<Rightarrow> error + pyval list" where
  "py_set v =
     bind_err (py_iter v) (\<lambda>items.
       if list_all hashable items then Inr (remdups items) else Inl TypeError)"

definition sign_threshold_signature_fulfillment ::
  "env \<Rightarrow> Input \<Rightarrow> ffill \<Rightarrow> string \<Rightarrow> (string \<times> string) list \<Rightarrow> error + Input" where
  "sign_threshold_signature_fulfillment E input ff tx_serialized key_pairs =
     bind_err (py_set (input_owners_before input)) (\<lambda>owners.
     bind_err (sign_owners E tx_serialized key_pairs owners ff) (\<lambda>ff'.
       Inr (input\<lparr>input_fulfillment := PObj ff'\<rparr>)))"

text \<open>\<^verbatim>\<open>_sign_input\<close>: the dispatch on the fulfillment's class.\<close>

definition sign_input :: "env \<Rightarrow> Input \<Rightarrow> string \<Rightarrow> (string \<times> string) list \<Rightarrow> error + Input" where
  "sign_input E input tx_serialized key_pairs =
     (case input_fulfillment input of
        PObj (Ed25519Fulfillment pk sig) \<Rightarrow>
          sign_simple_signature_fulfillment E input (Ed25519Fulfillment pk sig) tx_serialized key_pairs
      | PObj (ThresholdSha256Fulfillment k subs) \<Rightarrow>
          sign_threshold_signature_fulfillment E input (ThresholdSha256Fulfillment k subs)
            tx_serialized key_pairs
      | _ \<Rightarrow> Inl ValueError)"

text \<open>The message an input is signed and validated against: the partial transaction
  with this input alone, in dict form, its signatures removed, serialized.\<close>

definition partial_message :: "env \<Rightarrow> Transaction \<Rightarrow> Input \<Rightarrow> error + string" where
  "partial_message E T input =
     bind_err (Transaction_init E (tx_operation T) (tx_asset T) [input] (tx_outputs T)
                 (tx_metadata T) (tx_version T)) (\<lambda>tx_partial.
     bind_err (Transaction_to_dict E tx_partial) (\<lambda>tx_partial_dict.
     bind_err (remove_signatures tx_partial_dict) (\<lambda>tx_partial_dict'.
       Inr (serialize E tx_partial_dict'))))"

text \<open>One round of the loop of \<^verbatim>\<open>sign\<close>: the message of the partial transaction with
  this input alone, and the input signed against it.\<close>

definition sign_round ::
  "env \<Rightarrow> (string \<times> string) list \<Rightarrow> Transaction \<Rightarrow> Input \<Rightarrow> error + Input" where
  "sign_round E key_pairs T input =
     bind_err (partial_message E T input) (\<lambda>tx_serialized.
       sign_input E input tx_serialized key_pairs)"



section \<open>Validation\<close>

text \<open>Modelled from the spec: \<^verbatim>\<open>Fulfillment.validate\<close> of the cryptoconditions package,
  which is not part of the repository. A signed leaf verifies its signature over the
  message, an unsigned one is not fulfilled, and a threshold node is fulfilled when at
  least \<open>threshold\<close> of its subnodes are.\<close>

fun validate :: "env \<Rightarrow> ffill \<Rightarrow> string \<Rightarrow> bool" where
  "validate E (Ed25519Fulfillment pk None) msg = False"
| "validate E (Ed25519Fulfillment pk (Some sig)) msg = ed_verify E msg sig pk"
| "validate E (ThresholdSha256Fulfillment k subs) msg =
     (k \<le> length (filter (\<lambda>c. validate E c msg) subs))"
| "validate E (OtherFulfillment s) msg = validate_other E s msg"

text \<open>\<^verbatim>\<open>_input_valid\<close>. A fulfillment that is no object has no \<^verbatim>\<open>serialize_uri\<close>, and the
  AttributeError is not among the exceptions the source turns into False.\<close>

definition caught_as_invalid :: "error \<Rightarrow> bool" where
  "caught_as_invalid e = (e = TypeError \<or> e = ValueError \<or> e = ParsingError)"

definition input_valid :: "env \<Rightarrow> Input \<Rightarrow> string \<Rightarrow> string \<Rightarrow> pyval \<Rightarrow> error + bool" where
  "input_valid E input operation tx_serialized output_condition_uri =
     (case input_fulfillment input of
        PObj ccffill \<Rightarrow>
          (case bind_err (serialize_uri E ccffill) (from_uri E) of
             Inl e \<Rightarrow> (if caught_as_invalid e then Inr False else Inl e)
           | Inr parsed_ffill \<Rightarrow>
               (let output_valid =
                      (if operation = CREATE \<or> operation = GENESIS then True
                       else output_condition_uri = PStr (condition_uri E ccffill));
                    ffill_valid = validate E parsed_ffill tx_serialized
                in Inr (output_valid \<and> ffill_valid)))
      | _ \<Rightarrow> Inl AttributeError)"

text \<open>\<^verbatim>\<open>gen_tx\<close> of \<^verbatim>\<open>_inputs_valid\<close>; its second argument, one of the transaction's own
  outputs, is not used.\<close>

definition gen_tx :: "env \<Rightarrow> Transaction \<Rightarrow> Input \<Rightarrow> Output \<Rightarrow> pyval \<Rightarrow> error + bool" where
  "gen_tx E T input out output_condition_uri =
     bind_err (partial_message E T input) (\<lambda>tx_serialized.
       input_valid E input (tx_operation T) tx_serialized output_condition_uri)"

text \<open>\<^verbatim>\<open>all(map(gen_tx, self.inputs, self.outputs, output_condition_uris))\<close>: \<^verbatim>\<open>map\<close> stops
  with its shortest argument, and \<^verbatim>\<open>all\<close> stops at the first False.\<close>

fun all_gen_tx :: "env \<Rightarrow> Transaction \<Rightarrow> (Input \<times> Output \<times> pyval) list \<Rightarrow> error + bool" where
  "all_gen_tx E T [] = Inr True"
| "all_gen_tx E T ((input, out, uri) # rest) =
     (case gen_tx E T input out uri of
        Inl e \<Rightarrow> Inl e
      | Inr ok \<Rightarrow> if ok then all_gen_tx E T rest else Inr False)"

definition inputs_valid_uris :: "env \<Rightarrow> Transaction \<Rightarrow> pyval list \<Rightarrow> error + bool" where
  "inputs_valid_uris E T output_condition_uris =
     (if length (tx_inputs T) \<noteq> length output_condition_uris then Inl ValueError
      else all_gen_tx E T (zip (tx_inputs T) (zip (tx_outputs T) output_condition_uris)))"

text \<open>\<^verbatim>\<open>output.fulfillment.condition_uri\<close> of a referenced output.\<close>

fun output_condition_uri :: "env \<Rightarrow> Output \<Rightarrow> error + pyval" where
  "output_condition_uri E out =
     (case output_fulfillment out of
        PObj f \<Rightarrow> Inr (PStr (condition_uri E f))
      | _ \<Rightarrow> Inl AttributeError)"

definition inputs_valid :: "env \<Rightarrow> Transaction \<Rightarrow> Output list option \<Rightarrow> error + bool" where
  "inputs_valid E T outputs =
     (if tx_operation T = CREATE \<or> tx_operation T = GENESIS
      then inputs_valid_uris E T (map (\<lambda>_. PStr ''dummyvalue'') (tx_inputs T))
      else if tx_operation T = TRANSFER
      then (case outputs of
              None \<Rightarrow> Inl TypeError
            | Some outs \<Rightarrow>
                bind_err (map_err (output_condition_uri E) outs) (inputs_valid_uris E T))
      else Inl TypeError)"

section \<open>get_asset_id\<close>

text \<open>The set comprehension of \<^verbatim>\<open>get_asset_id\<close>: the test is on \<^verbatim>\<open>CREATE\<close> alone.\<close>

definition asset_id_of :: "env \<Rightarrow> Transaction \<Rightarrow> error + pyval" where
  "asset_id_of E tx =
     bind_err (if tx_operation tx = CREATE then tx_id E tx else py_getitem (tx_asset tx) ''id'')
       (\<lambda>v. if hashable v then Inr v else Inl TypeError)"

definition get_asset_id :: "env \<Rightarrow> Transaction list \<Rightarrow> error + pyval" where
  "get_asset_id E transactions =
     bind_err (map_err (asset_id_of E) transactions) (\<lambda>ids.
       (case remdups ids of
          [] \<Rightarrow> Inl KeyError
        | [a] \<Rightarrow> Inr a
        | _ \<Rightarrow> Inl AssetIdMismatch))"

section \<open>Decimal strings\<close>

text \<open>The number a string of decimal digits denotes; the empty string and a string with
  any other character denote none.\<close>

fun decimal_value :: "string \<Rightarrow> nat \<Rightarrow> nat option" where
  "decimal_value [] acc = Some acc"
| "decimal_value (c # cs) acc =
     (if c \<in> set ''0123456789'' then decimal_value cs (10 * acc + (of_char c - 48)) else None)"

definition decimal_of_str :: "string \<Rightarrow> int option" where
  "decimal_of_str s = (if s = [] then None else map_option int (decimal_value s 0))"

section \<open>The signature-stripped body\<close>

text \<open>The body the id is the hash of, written from the specification: the transaction's
  map without an \<^verbatim>\<open>id\<close>, every input's \<^verbatim>\<open>fulfillment\<close> replaced by null.\<close>

definition stripped_input_dict :: "Input \<Rightarrow> pyval" where
  "stripped_input_dict i =
     PDict [(''owners_before'', input_owners_before i),
            (''fulfills'', (case input_fulfills i of None \<Rightarrow> PNone | Some l \<Rightarrow> TransactionLink_to_dict l)),
            (''fulfillment'', PNone)]"

definition signature_stripped_body :: "env \<Rightarrow> Transaction \<Rightarrow> pyval" where
  "signature_stripped_body E T =
     PDict [(''inputs'', PList (map stripped_input_dict (tx_inputs T))),
            (''outputs'', PList (map (Output_to_dict E) (tx_outputs T))),
            (''operation'', PStr (tx_operation T)),
            (''metadata'', tx_metadata T),
            (''asset'', tx_asset T),
            (''version'', tx_version T)]"

section \<open>A concrete instance of the external capabilities\<close>

text \<open>An executable stand-in for the imported functions, on which the model can be
  evaluated: a printer for values as the serializer, lengths as digests, a table of
  known fulfillments as the parser of URIs and detail maps.\<close>

fun demo_show_ffill :: "ffill \<Rightarrow> string" where
  "demo_show_ffill (Ed25519Fulfillment pk sig) =
     ''E('' @ pk @ (case sig of None \<Rightarrow> [] | Some s \<Rightarrow> ''='' @ s) @ '')''"
| "demo_show_ffill (ThresholdSha256Fulfillment k subs) =
     ''T('' @ str_nat k @ concat (map (\<lambda>c. '';'' @ demo_show_ffill c) subs) @ '')''"
| "demo_show_ffill (OtherFulfillment s) = ''O('' @ s @ '')''"

fun demo_show_condition :: "ffill \<Rightarrow> string" where
  "demo_show_condition (Ed25519Fulfillment pk sig) = ''E('' @ pk @ '')''"
| "demo_show_condition (ThresholdSha256Fulfillment k subs) =
     ''T('' @ str_nat k @ concat (map (\<lambda>c. '';'' @ demo_show_condition c) subs) @ '')''"
| "demo_show_condition (OtherFulfillment s) = ''O('' @ s @ '')''"

fun fully_signed :: "ffill \<Rightarrow> bool" where
  "fully_signed (Ed25519Fulfillment pk sig) = (sig \<noteq> None)"
| "fully_signed (ThresholdSha256Fulfillment k subs) = list_all fully_signed subs"
| "fully_signed (OtherFulfillment s) = True"

fun demo_ffill_to_dict :: "ffill \<Rightarrow> pyval" where
  "demo_ffill_to_dict (Ed25519Fulfillment pk sig) =
     PDict [(''type'', PStr ''ed25519''), (''public_key'', PStr pk),
            (''signature'', (case sig of None \<Rightarrow> PNone | Some s \<Rightarrow> PStr s))]"
| "demo_ffill_to_dict (ThresholdSha256Fulfillment k subs) =
     PDict [(''type'', PStr ''threshold''), (''threshold'', PInt (int k)),
            (''subfulfillments'', PList (map demo_ffill_to_dict subs))]"
| "demo_ffill_to_dict (OtherFulfillment s) = PDict [(''type'', PStr s)]"

fun demo_serialize :: "pyval \<Rightarrow> string" where
  "demo_serialize PNone = ''null''"
| "demo_serialize (PInt n) = py_str n"
| "demo_serialize (PStr s) = ''<'' @ s @ ''>''"
| "demo_serialize (PList xs) = ''['' @ concat (map (\<lambda>x. demo_serialize x @ '','') xs) @ '']''"
| "demo_serialize (PDict kvs) =
     ''{'' @ concat (map (\<lambda>kv. fst kv @ '':'' @ demo_serialize (snd kv) @ '','') kvs) @ ''}''"
| "demo_serialize (PObj f) = demo_show_ffill f"

definition demo_serialize_uri :: "ffill \<Rightarrow> error + string" where
  "demo_serialize_uri f = (if fully_signed f then Inr (''cf:'' @ demo_show_ffill f) else Inl TypeError)"

definition demo_verify :: "string \<Rightarrow> string \<Rightarrow> string \<Rightarrow> bool" where
  "demo_verify msg sig pk =
     (case pk of [] \<Rightarrow> False | c # sk \<Rightarrow> c = CHR ''P'' \<and> sig = sk @ ''/'' @ str_nat (length msg))"

definition demo_env :: "ffill list \<Rightarrow> env" where
  "demo_env known =
     \<lparr>hash_data = (\<lambda>s. ''h'' @ str_nat (length s)),
      serialize = demo_serialize,
      VERSION = ''0.9'',
      int_of_str = decimal_of_str,
      public_of = (\<lambda>sk. CHR ''P'' # sk),
      ed_sign = (\<lambda>msg sk. sk @ ''/'' @ str_nat (length msg)),
      ed_verify = demo_verify,
      serialize_uri = demo_serialize_uri,
      from_uri = (\<lambda>u. case find (\<lambda>f. demo_serialize_uri f = Inr u) known of
                         None \<Rightarrow> Inl ValueError | Some f \<Rightarrow> Inr f),
      condition_uri = (\<lambda>f. ''cc:'' @ demo_show_condition f),
      ffill_to_dict = demo_ffill_to_dict,
      ffill_from_dict = (\<lambda>d. case find (\<lambda>f. demo_ffill_to_dict f = d) known of
                         None \<Rightarrow> Inl ParsingError | Some f \<Rightarrow> Inr f),
      validate_other = (\<lambda>s msg. False)\<rparr>"

definition demo_create :: Transaction where
  "demo_create =
     \<lparr>tx_operation = ''CREATE'',
      tx_asset = PDict [(''data'', PDict [(''n'', PInt 1)])],
      tx_inputs = [\<lparr>input_fulfillment = PObj (Ed25519Fulfillment ''Pa'' None),
                    input_owners_before = PList [PStr ''Pa''],
                    input_fulfills = None\<rparr>],
      tx_outputs = [\<lparr>output_fulfillment = PObj (Ed25519Fulfillment ''Pa'' None),
                     output_amount = 1,
                     output_public_keys = PList [PStr ''Pa'']\<rparr>],
      tx_metadata = PDict [(''m'', PStr ''hi'')],
      tx_version = PStr ''0.9''\<rparr>"


definition demo_create_dict :: pyval where
  "demo_create_dict =
     PDict
       [(''inputs'',
         PList
          [PDict
            [(''owners_before'', PList [PStr ''Pa'']),
             (''fulfills'', PNone),
             (''fulfillment'',
              PDict
               [(''type'', PStr ''ed25519''), (''public_key'', PStr ''Pa''),
                (''signature'', PNone)])]]),
        (''outputs'',
         PList
          [PDict
            [(''public_keys'', PList [PStr ''Pa'']),
             (''condition'',
              PDict
               [(''details'',
                 PDict
                  [(''type'', PStr ''ed25519''),
                   (''public_key'', PStr ''Pa''), (''signature'', PNone)]),
                (''uri'', PStr ''cc:E(Pa)'')]),
             (''amount'', PStr ''1'')]]),
        (''operation'', PStr ''CREATE''),
        (''metadata'', PDict [(''m'', PStr ''hi'')]),
        (''asset'', PDict [(''data'', PDict [(''n'', PInt 1)])]),
        (''version'', PStr ''0.9''), (''id'', PStr ''h271'')]"



definition demo_signed_dict :: pyval where
  "demo_signed_dict =
     PDict
       [(''inputs'',
         PList
          [PDict
            [(''owners_before'', PList [PStr ''Pa'']),
             (''fulfills'', PNone),
             (''fulfillment'', PStr ''cf:E(Pa=a/281)'')]]),
        (''outputs'',
         PList
          [PDict
            [(''public_keys'', PList [PStr ''Pa'']),
             (''condition'',
              PDict
               [(''details'',
                 PDict
                  [(''type'', PStr ''ed25519''),
                   (''public_key'', PStr ''Pa''), (''signature'', PNone)]),
                (''uri'', PStr ''cc:E(Pa)'')]),
             (''amount'', PStr ''1'')]]),
        (''operation'', PStr ''CREATE''),
        (''metadata'', PDict [(''m'', PStr ''hi'')]),
        (''asset'', PDict [(''data'', PDict [(''n'', PInt 1)])]),
        (''version'', PStr ''0.9''), (''id'', PStr ''h271'')]"

definition demo_genesis :: Transaction where
  "demo_genesis = demo_create\<lparr>tx_operation := ''GENESIS''\<rparr>"


definition demo_output :: Output where
  "demo_output = \<lparr>output_fulfillment = PObj (Ed25519Fulfillment ''Pa'' None),
                     output_amount = 1, output_public_keys = PList [PStr ''Pa'']\<rparr>"

definition demo_output_dict :: "string \<Rightarrow> pyval" where
  "demo_output_dict amount =
     PDict [(''public_keys'', PList [PStr ''Pa'']),
            (''condition'',
               PDict [(''details'',
                        PDict [(''type'', PStr ''ed25519''), (''public_key'', PStr ''Pa''),
                               (''signature'', PNone)]),
                      (''uri'', PStr ''cc:E(Pa)'')]),
            (''amount'', PStr amount)]"

section \<open>The condition tree of an owner list\<close>

text \<open>The node the specification assigns to an item of an owner list: an unsigned
  Ed25519 leaf for a public key, a pre-built condition node as it is, and for a sublist
  the threshold node over its items whose threshold is their number. \<open>leaves_ok\<close> says
  that the leaves of a nested list are public keys or condition nodes, \<open>short_free\<close> that
  no sublist in it has fewer than two items.\<close>

fun spec_node :: "pyval \<Rightarrow> ffill" where
  "spec_node (PStr pk) = Ed25519Fulfillment pk None"
| "spec_node (PObj f) = f"
| "spec_node (PList items) = ThresholdSha256Fulfillment (length items) (map spec_node items)"
| "spec_node _ = OtherFulfillment []"

fun leaves_ok :: "pyval \<Rightarrow> bool" where
  "leaves_ok (PStr pk) = True"
| "leaves_ok (PObj f) = True"
| "leaves_ok (PList items) = list_all leaves_ok items"
| "leaves_ok _ = False"

fun short_free :: "pyval \<Rightarrow> bool" where
  "short_free (PList items) = (length items > 1 \<and> list_all short_free items)"
| "short_free _ = True"

fun is_ed25519_leaf :: "pyval \<Rightarrow> bool" where
  "is_ed25519_leaf (PObj (Ed25519Fulfillment pk sig)) = True"
| "is_ed25519_leaf _ = False"

section \<open>validate_id on a store\<close>

text \<open>For the effect of \<^verbatim>\<open>validate_id\<close> on its argument the objects live in a store: an
  address is an index into the list of objects, and a new object goes to its end.
  \<^verbatim>\<open>deepcopy\<close> allocates a fresh object with the same value, \<^verbatim>\<open>pop\<close> and the loop of
  \<^verbatim>\<open>_remove_signatures\<close> update the object they are called on in place.\<close>

type_synonym addr = nat
type_synonym store = "pyval list"

definition st_deepcopy :: "addr \<Rightarrow> store \<Rightarrow> addr \<times> store" where
  "st_deepcopy a s = (length s, s @ [s ! a])"

definition st_pop :: "addr \<Rightarrow> string \<Rightarrow> store \<Rightarrow> (error + pyval) \<times> store" where
  "st_pop a k s =
     (case py_pop (s ! a) k of
        Inl e \<Rightarrow> (Inl e, s)
      | Inr (v, rest) \<Rightarrow> (Inr v, s[a := rest]))"

fun put_input :: "pyval \<Rightarrow> nat \<Rightarrow> pyval \<Rightarrow> pyval" where
  "put_input (PDict kvs) i x =
     (case map_of kvs ''inputs'' of
        Some (PList xs) \<Rightarrow> PDict (dict_set kvs ''inputs'' (PList (xs[i := x])))
      | _ \<Rightarrow> PDict kvs)"
| "put_input v i x = v"

fun st_strip_items :: "addr \<Rightarrow> nat \<Rightarrow> pyval list \<Rightarrow> store \<Rightarrow> (error + unit) \<times> store" where
  "st_strip_items c i [] s = (Inr (), s)"
| "st_strip_items c i (x # xs) s =
     (case strip_input x of
        Inl e \<Rightarrow> (Inl e, s)
      | Inr x' \<Rightarrow> st_strip_items c (Suc i) xs (s[c := put_input (s ! c) i x']))"

definition st_remove_signatures :: "addr \<Rightarrow> store \<Rightarrow> (error + addr) \<times> store" where
  "st_remove_signatures a s =
     (case st_deepcopy a s of
        (c, s1) \<Rightarrow>
          (case bind_err (py_getitem (s1 ! c) ''inputs'') py_iter of
             Inl e \<Rightarrow> (Inl e, s1)
           | Inr items \<Rightarrow>
               (case st_strip_items c 0 items s1 of
                  (Inl e, s2) \<Rightarrow> (Inl e, s2)
                | (Inr u, s2) \<Rightarrow> (Inr c, s2))))"

definition st_validate_id :: "env \<Rightarrow> addr \<Rightarrow> store \<Rightarrow> (error + unit) \<times> store" where
  "st_validate_id E a s =
     (case st_deepcopy a s of
        (b, s1) \<Rightarrow>
          (case st_pop b ''id'' s1 of
             (Inl e, s2) \<Rightarrow> (if e = KeyError then Inl InvalidHash else Inl e, s2)
           | (Inr proposed_tx_id, s2) \<Rightarrow>
               (case st_remove_signatures b s2 of
                  (Inl e, s3) \<Rightarrow> (Inl e, s3)
                | (Inr c, s3) \<Rightarrow>
                    (let valid_tx_id = hash_data E (serialize E (s3 ! c))
                     in (if proposed_tx_id \<noteq> PStr valid_tx_id then Inl InvalidHash else Inr (), s3)))))"

definition demo_tampered_dict :: pyval where
  "demo_tampered_dict =
     (case demo_create_dict of
        PDict kvs \<Rightarrow> PDict (dict_set kvs ''metadata'' (PDict [(''m'', PStr ''ho!'')]))
      | v \<Rightarrow> v)"

definition demo_transfer_input0 :: Input where
  "demo_transfer_input0 =
     \<lparr>input_fulfillment = PObj (Ed25519Fulfillment ''Pa'' None),
      input_owners_before = PList [PStr ''Pa''],
      input_fulfills = Some \<lparr>link_txid = PStr ''h271'', link_output = PInt 0\<rparr>\<rparr>"

definition demo_transfer_input1 :: Input where
  "demo_transfer_input1 =
     \<lparr>input_fulfillment = PObj (Ed25519Fulfillment ''Pb'' None),
      input_owners_before = PList [PStr ''Pb''],
      input_fulfills = Some \<lparr>link_txid = PStr ''h271'', link_output = PInt 1\<rparr>\<rparr>"

definition demo_transfer :: "Input list \<Rightarrow> Transaction" where
  "demo_transfer ins =
     \<lparr>tx_operation = ''TRANSFER'',
      tx_asset = PDict [(''id'', PStr ''h271'')],
      tx_inputs = ins,
      tx_outputs = [\<lparr>output_fulfillment = PObj (Ed25519Fulfillment ''Pc'' None),
                     output_amount = 1,
                     output_public_keys = PList [PStr ''Pc'']\<rparr>],
      tx_metadata = PNone,
      tx_version = PStr ''0.9''\<rparr>"


definition demo_signed_input0 :: Input where
  "demo_signed_input0 =
     demo_transfer_input0\<lparr>input_fulfillment := PObj (Ed25519Fulfillment ''Pa'' (Some ''a/295''))\<rparr>"

definition demo_forged_input1 :: Input where
  "demo_forged_input1 =
     demo_transfer_input1\<lparr>input_fulfillment := PObj (Ed25519Fulfillment ''Pb'' (Some ''forged''))\<rparr>"

definition demo_transfer_env :: env where
  "demo_transfer_env =
     demo_env [Ed25519Fulfillment ''Pa'' (Some ''a/295''), Ed25519Fulfillment ''Pb'' (Some ''forged''),
               Ed25519Fulfillment ''Pb'' (Some ''b/295'')]"

definition demo_referenced_outputs :: "Output list" where
  "demo_referenced_outputs =
     [\<lparr>output_fulfillment = PObj (Ed25519Fulfillment ''Pa'' None), output_amount = 1,
       output_public_keys = PList [PStr ''Pa'']\<rparr>,
      \<lparr>output_fulfillment = PObj (Ed25519Fulfillment ''Pb'' None), output_amount = 1,
       output_public_keys = PList [PStr ''Pb'']\<rparr>]"

section \<open>What signing is to achieve\<close>








text \<open>The partial transaction of an input, as the constructor builds it, and the message
  the specification has the input signed against: the serialization of that partial
  transaction's map, fulfillment stripped, with the partial transaction's id.\<close>

definition partial_transaction :: "env \<Rightarrow> Transaction \<Rightarrow> Input \<Rightarrow> Transaction" where
  "partial_transaction E T inp =
     T\<lparr>tx_inputs := [inp],
       tx_version := (if tx_version T \<noteq> PNone then tx_version T else PStr (VERSION E))\<rparr>"

definition signing_message :: "env \<Rightarrow> Transaction \<Rightarrow> Input \<Rightarrow> string" where
  "signing_message E T inp =
     (case signature_stripped_body E (partial_transaction E T inp) of
        PDict items \<Rightarrow>
          serialize E (PDict (items @ [(''id'', PStr (hash_data E (serialize E (PDict items))))]))
      | _ \<Rightarrow> [])"




section \<open>Identity of a transaction\<close>

lemma bind_err_Inr_iff: "bind_err m f = Inr y \<longleftrightarrow> (\<exists>x. m = Inr x \<and> f x = Inr y)"
  by (cases m) auto

lemma Input_to_dict_strip:
  "Input_to_dict E i = Inr d \<Longrightarrow> strip_input d = Inr (stripped_input_dict i)"
  by (auto simp: Input_to_dict_def stripped_input_dict_def bind_err_Inr_iff Let_def)

lemma map_err_Input_to_dict_strip:
  "map_err (Input_to_dict E) ins = Inr ds \<Longrightarrow> map_err strip_input ds = Inr (map stripped_input_dict ins)"
proof (induction ins arbitrary: ds)
  case Nil
  then show ?case by simp
next
  case (Cons i ins)
  then show ?case
    by (auto split: sum.splits simp: Input_to_dict_strip)
qed

lemma remove_signatures_body:
  assumes "map_err (Input_to_dict E) (tx_inputs T) = Inr ins"
  shows "remove_signatures (PDict ((''inputs'', PList ins) # rest)) =
         Inr (PDict ((''inputs'', PList (map stripped_input_dict (tx_inputs T))) # rest))"
  using map_err_Input_to_dict_strip[OF assms] by (simp add: remove_signatures_def)


lemma to_dict_value:
  assumes ins: "map_err (Input_to_dict E) (tx_inputs T) = Inr ins"
  shows "Transaction_to_dict E T =
     Inr (PDict [(''inputs'', PList ins),
                 (''outputs'', PList (map (Output_to_dict E) (tx_outputs T))),
                 (''operation'', PStr (tx_operation T)),
                 (''metadata'', tx_metadata T),
                 (''asset'', tx_asset T),
                 (''version'', tx_version T),
                 (''id'', PStr (hash_data E (serialize E (signature_stripped_body E T))))])"
  unfolding Transaction_to_dict_def Let_def ins bind_err.simps remove_signatures_body[OF ins]
    signature_stripped_body_def
  by simp

lemma to_dict_shape:
  assumes "Transaction_to_dict E T = Inr d"
  shows "\<exists>ins. map_err (Input_to_dict E) (tx_inputs T) = Inr ins \<and>
     d = PDict [(''inputs'', PList ins),
                 (''outputs'', PList (map (Output_to_dict E) (tx_outputs T))),
                 (''operation'', PStr (tx_operation T)),
                 (''metadata'', tx_metadata T),
                 (''asset'', tx_asset T),
                 (''version'', tx_version T),
                 (''id'', PStr (hash_data E (serialize E (signature_stripped_body E T))))]"
proof (cases "map_err (Input_to_dict E) (tx_inputs T)")
  case (Inl e)
  then have "Transaction_to_dict E T = Inl e"
    by (simp add: Transaction_to_dict_def)
  with assms show ?thesis by simp
next
  case (Inr ins)
  from to_dict_value[OF Inr] assms show ?thesis
    using Inr by simp
qed

lemma py_getitem_id_last:
  "py_getitem (PDict [(''inputs'', a), (''outputs'', b), (''operation'', c), (''metadata'', m),
      (''asset'', s), (''version'', v), (''id'', i)]) ''id'' = Inr i"
  by simp

lemma py_pop_id_last:
  "py_pop (PDict [(''inputs'', a), (''outputs'', b), (''operation'', c), (''metadata'', m),
      (''asset'', s), (''version'', v), (''id'', i)]) ''id'' =
   Inr (i, PDict [(''inputs'', a), (''outputs'', b), (''operation'', c), (''metadata'', m),
      (''asset'', s), (''version'', v)])"
  by (simp add: dict_del_def)

lemma validate_id_to_dict:
  assumes "Transaction_to_dict E T = Inr d"
  shows "validate_id E d = Inr ()"
proof -
  from to_dict_shape[OF assms] obtain ins where
    ins: "map_err (Input_to_dict E) (tx_inputs T) = Inr ins" and
    d: "d = PDict [(''inputs'', PList ins),
                 (''outputs'', PList (map (Output_to_dict E) (tx_outputs T))),
                 (''operation'', PStr (tx_operation T)),
                 (''metadata'', tx_metadata T),
                 (''asset'', tx_asset T),
                 (''version'', tx_version T),
                 (''id'', PStr (hash_data E (serialize E (signature_stripped_body E T))))]"
    by blast
  show ?thesis
    unfolding validate_id_def d py_pop_id_last
    by (simp add: remove_signatures_body[OF ins] signature_stripped_body_def Let_def)
qed

lemma to_dict_id_value:
  assumes "Transaction_to_dict E T = Inr d"
  shows "py_getitem d ''id'' = Inr (PStr (hash_data E (serialize E (signature_stripped_body E T))))"
proof -
  from to_dict_shape[OF assms] obtain ins where
    d: "d = PDict [(''inputs'', PList ins),
                 (''outputs'', PList (map (Output_to_dict E) (tx_outputs T))),
                 (''operation'', PStr (tx_operation T)),
                 (''metadata'', tx_metadata T),
                 (''asset'', tx_asset T),
                 (''version'', tx_version T),
                 (''id'', PStr (hash_data E (serialize E (signature_stripped_body E T))))]"
    by blast
  show ?thesis unfolding d py_getitem_id_last ..
qed

lemma stripped_input_dict_upd [simp]:
  "stripped_input_dict (i\<lparr>input_fulfillment := f\<rparr>) = stripped_input_dict i"
  by (simp add: stripped_input_dict_def)

lemma map_stripped_map2:
  "length fs = length ins \<Longrightarrow>
   map stripped_input_dict (map2 (\<lambda>i f. i\<lparr>input_fulfillment := f\<rparr>) ins fs) = map stripped_input_dict ins"
proof (induction ins arbitrary: fs)
  case Nil
  then show ?case by simp
next
  case (Cons i ins)
  then show ?case by (cases fs) auto
qed

lemma stripped_body_refulfilled:
  "length fs = length (tx_inputs T) \<Longrightarrow>
   signature_stripped_body E (T\<lparr>tx_inputs := map2 (\<lambda>i f. i\<lparr>input_fulfillment := f\<rparr>) (tx_inputs T) fs\<rparr>)
     = signature_stripped_body E T"
  by (simp add: signature_stripped_body_def map_stripped_map2 del: map_map)

text \<open>
  Claim C1. Whenever \<^verbatim>\<open>to_dict\<close> returns, the \<^verbatim>\<open>id\<close> of the dict is the hash of the
  serialization of the signature-stripped body (no \<^verbatim>\<open>id\<close>, every input's fulfillment
  null); \<^verbatim>\<open>validate_id\<close> recomputes that id from the dict and accepts it; and replacing the
  fulfillments of the inputs by any others (signed, stripped or altered) leaves the id
  as it is.
\<close>

theorem to_dict_id:
  assumes "Transaction_to_dict E T = Inr d"
  shows "py_getitem d ''id'' = Inr (PStr (hash_data E (serialize E (signature_stripped_body E T))))
       \<and> validate_id E d = Inr ()
       \<and> (\<forall>fs d'. length fs = length (tx_inputs T)
            \<and> Transaction_to_dict E (T\<lparr>tx_inputs := map2 (\<lambda>i f. i\<lparr>input_fulfillment := f\<rparr>) (tx_inputs T) fs\<rparr>) = Inr d'
            \<longrightarrow> py_getitem d' ''id'' = py_getitem d ''id'')"
proof (intro conjI allI impI)
  show id: "py_getitem d ''id'' = Inr (PStr (hash_data E (serialize E (signature_stripped_body E T))))"
    by (rule to_dict_id_value[OF assms])
  show "validate_id E d = Inr ()"
    by (rule validate_id_to_dict[OF assms])
  fix fs d'
  assume h: "length fs = length (tx_inputs T)
            \<and> Transaction_to_dict E (T\<lparr>tx_inputs := map2 (\<lambda>i f. i\<lparr>input_fulfillment := f\<rparr>) (tx_inputs T) fs\<rparr>) = Inr d'"
  then have len: "length fs = length (tx_inputs T)" and
    d': "Transaction_to_dict E (T\<lparr>tx_inputs := map2 (\<lambda>i f. i\<lparr>input_fulfillment := f\<rparr>) (tx_inputs T) fs\<rparr>) = Inr d'"
    by blast+
  show "py_getitem d' ''id'' = py_getitem d ''id''"
    unfolding id to_dict_id_value[OF d'] stripped_body_refulfilled[OF len] ..
qed


theorem to_dict_id_witness:
  "Transaction_to_dict (demo_env []) demo_create = Inr demo_create_dict
   \<and> py_getitem demo_create_dict ''id''
       = Inr (PStr (hash_data (demo_env []) (serialize (demo_env [])
           (signature_stripped_body (demo_env []) demo_create))))
   \<and> validate_id (demo_env []) demo_create_dict = Inr ()
   \<and> py_getitem demo_signed_dict ''id'' = py_getitem demo_create_dict ''id''"
proof -
  have h: "Transaction_to_dict (demo_env []) demo_create = Inr demo_create_dict"
    by code_simp
  have h2: "length [PObj (Ed25519Fulfillment ''Pa'' (Some ''a/281''))] = length (tx_inputs demo_create)
     \<and> Transaction_to_dict (demo_env [])
         (demo_create\<lparr>tx_inputs := map2 (\<lambda>i f. i\<lparr>input_fulfillment := f\<rparr>) (tx_inputs demo_create)
            [PObj (Ed25519Fulfillment ''Pa'' (Some ''a/281''))]\<rparr>) = Inr demo_signed_dict"
    by code_simp
  note t = to_dict_id[OF h]
  from t have a: "py_getitem demo_create_dict ''id''
       = Inr (PStr (hash_data (demo_env []) (serialize (demo_env [])
           (signature_stripped_body (demo_env []) demo_create))))"
    by blast
  from t have b: "validate_id (demo_env []) demo_create_dict = Inr ()"
    by blast
  from t h2 have c: "py_getitem demo_signed_dict ''id'' = py_getitem demo_create_dict ''id''"
    by blast
  from h a b c show ?thesis by blast
qed

section \<open>Outputs as inputs\<close>




lemma map_err_Inl_iff: "(\<exists>e. map_err f xs = Inl e) \<longleftrightarrow> (\<exists>x\<in>set xs. \<exists>e. f x = Inl e)"
  by (induction xs) (auto split: sum.splits)















section \<open>The asset id of a list of transactions\<close>

text \<open>
  Claim C3 on a GENESIS transaction. \<^verbatim>\<open>get_asset_id\<close> compares the operation with
  \<^verbatim>\<open>CREATE\<close> only, so a GENESIS transaction is asked for \<^verbatim>\<open>asset['id']\<close>, which its payload
  (None, or a dict with \<^verbatim>\<open>data\<close>) does not have: the call raises KeyError or TypeError
  where the transaction's own id was expected.
\<close>

theorem get_asset_id_genesis:
  "Transaction_init (demo_env []) GENESIS (tx_asset demo_genesis) (tx_inputs demo_genesis)
      (tx_outputs demo_genesis) (tx_metadata demo_genesis) (tx_version demo_genesis) = Inr demo_genesis
   \<and> tx_id (demo_env []) demo_genesis = Inr (PStr ''h272'')
   \<and> get_asset_id (demo_env []) [demo_genesis] = Inl KeyError
   \<and> get_asset_id (demo_env []) [demo_genesis\<lparr>tx_asset := PNone\<rparr>] = Inl TypeError"
  by code_simp

section \<open>Amounts of outputs\<close>

lemma digit_char_cases:
  assumes "d < 10"
  shows "digit_char d \<in> set ''0123456789'' \<and> (of_char (digit_char d) :: nat) - 48 = d"
proof -
  from assms have "d = 0 \<or> d = 1 \<or> d = 2 \<or> d = 3 \<or> d = 4 \<or> d = 5 \<or> d = 6 \<or> d = 7 \<or> d = 8 \<or> d = 9"
    by arith
  then show ?thesis
    unfolding digit_char_def by (elim disjE) (simp_all)
qed

lemma decimal_value_append:
  "decimal_value (xs @ ys) acc = (case decimal_value xs acc of None \<Rightarrow> None | Some a \<Rightarrow> decimal_value ys a)"
  by (induction xs arbitrary: acc) auto

lemma decimal_value_str_nat: "decimal_value (str_nat n) 0 = Some n"
proof (induction n rule: str_nat.induct)
  case (1 n)
  show ?case
  proof (cases "n < 10")
    case True
    then show ?thesis
      using digit_char_cases[OF True] by (simp add: str_nat.simps[of n])
  next
    case False
    have d: "n mod 10 < 10" by simp
    from False 1 have ih: "decimal_value (str_nat (n div 10)) 0 = Some (n div 10)" by simp
    show ?thesis
      using False digit_char_cases[OF d] ih
      by (simp add: str_nat.simps[of n] decimal_value_append)
  qed
qed

lemma str_nat_nonempty: "str_nat n \<noteq> []"
  by (simp add: str_nat.simps[of n])

lemma decimal_of_str_py_str: "0 \<le> n \<Longrightarrow> decimal_of_str (py_str n) = Some n"
  by (simp add: decimal_of_str_def py_str_def decimal_value_str_nat str_nat_nonempty)


lemma Output_init_cases:
  "Output_init ff pk amount =
     (if \<not> is_list pk \<and> pk \<noteq> PNone then Inl TypeError
      else if 1 \<le> amount \<and> amount \<le> 9 * 10 ^ 18
        then Inr \<lparr>output_fulfillment = ff, output_amount = amount, output_public_keys = pk\<rparr>
      else Inl AmountError)"
  by (simp add: Output_init_def MAX_AMOUNT_def)

lemma Output_to_dict_amount:
  "py_getitem (Output_to_dict E out) ''amount'' = Inr (PStr (py_str (output_amount out)))"
  by (simp add: Output_to_dict_def)

lemma Output_from_dict_amount:
  assumes "Output_from_dict_fulfillment E data = Inr ff"
    and "py_getitem data ''amount'' = Inr (PStr s)"
    and "py_getitem data ''public_keys'' = Inr pk"
  shows "Output_from_dict E data =
     (case int_of_str E s of None \<Rightarrow> Inl AmountError | Some n \<Rightarrow> Output_init ff pk n)"
  using assms by (simp add: Output_from_dict_def split: option.splits)

text \<open>
  Claim C6, amended. \<^verbatim>\<open>Output.__init__\<close> first rejects public keys that are neither a list
  nor None with TypeError; with acceptable public keys it succeeds exactly when
  \<open>1 \<le> amount \<le> 9 \<sqdot> 10\<^sup>1\<^sup>8\<close> and raises AmountError otherwise. \<^verbatim>\<open>to_dict\<close> renders the
  amount as its decimal string. \<^verbatim>\<open>Output.from_dict\<close>, once the condition is read, raises
  AmountError for an amount string that does not parse and hands a parsed amount to the
  constructor, which applies the same bounds.
\<close>

theorem output_amount_bounds:
  "Output_init ff pk amount =
     (if \<not> is_list pk \<and> pk \<noteq> PNone then Inl TypeError
      else if 1 \<le> amount \<and> amount \<le> 9 * 10 ^ 18
        then Inr \<lparr>output_fulfillment = ff, output_amount = amount, output_public_keys = pk\<rparr>
      else Inl AmountError)
   \<and> py_getitem (Output_to_dict E out) ''amount'' = Inr (PStr (py_str (output_amount out)))
   \<and> (0 \<le> amount \<longrightarrow> decimal_of_str (py_str amount) = Some amount)
   \<and> (Output_from_dict_fulfillment E data = Inr ff'
        \<and> py_getitem data ''amount'' = Inr (PStr s)
        \<and> py_getitem data ''public_keys'' = Inr pk' \<and> (is_list pk' \<or> pk' = PNone)
      \<longrightarrow> Output_from_dict E data =
            (case int_of_str E s of
               None \<Rightarrow> Inl AmountError
             | Some n \<Rightarrow>
                 if 1 \<le> n \<and> n \<le> 9 * 10 ^ 18
                 then Inr \<lparr>output_fulfillment = ff', output_amount = n, output_public_keys = pk'\<rparr>
                 else Inl AmountError))"
proof (intro conjI impI)
  show "Output_init ff pk amount =
     (if \<not> is_list pk \<and> pk \<noteq> PNone then Inl TypeError
      else if 1 \<le> amount \<and> amount \<le> 9 * 10 ^ 18
        then Inr \<lparr>output_fulfillment = ff, output_amount = amount, output_public_keys = pk\<rparr>
      else Inl AmountError)"
    by (rule Output_init_cases)
  show "py_getitem (Output_to_dict E out) ''amount'' = Inr (PStr (py_str (output_amount out)))"
    by (rule Output_to_dict_amount)
  show "decimal_of_str (py_str amount) = Some amount" if "0 \<le> amount"
    using that by (rule decimal_of_str_py_str)
  assume h: "Output_from_dict_fulfillment E data = Inr ff'
        \<and> py_getitem data ''amount'' = Inr (PStr s)
        \<and> py_getitem data ''public_keys'' = Inr pk' \<and> (is_list pk' \<or> pk' = PNone)"
  then have "Output_from_dict E data =
     (case int_of_str E s of None \<Rightarrow> Inl AmountError | Some n \<Rightarrow> Output_init ff' pk' n)"
    using Output_from_dict_amount by blast
  with h show "Output_from_dict E data =
            (case int_of_str E s of
               None \<Rightarrow> Inl AmountError
             | Some n \<Rightarrow>
                 if 1 \<le> n \<and> n \<le> 9 * 10 ^ 18
                 then Inr \<lparr>output_fulfillment = ff', output_amount = n, output_public_keys = pk'\<rparr>
                 else Inl AmountError)"
    by (auto simp: Output_init_cases split: option.splits)
qed


theorem output_amount_bounds_witness:
  "Output_from_dict (demo_env [Ed25519Fulfillment ''Pa'' None]) (demo_output_dict ''1'') = Inr demo_output
   \<and> Output_from_dict (demo_env [Ed25519Fulfillment ''Pa'' None]) (demo_output_dict ''a'') = Inl AmountError
   \<and> Output_from_dict (demo_env [Ed25519Fulfillment ''Pa'' None]) (demo_output_dict ''0'') = Inl AmountError
   \<and> Output_from_dict (demo_env [Ed25519Fulfillment ''Pa'' None]) (demo_output_dict ''9000000000000000001'')
       = Inl AmountError
   \<and> Output_to_dict (demo_env [Ed25519Fulfillment ''Pa'' None]) demo_output = demo_output_dict ''1''
   \<and> decimal_of_str (py_str 9000000000000000000) = Some 9000000000000000000"
proof -
  let ?E = "demo_env [Ed25519Fulfillment ''Pa'' None]"
  let ?ff = "PObj (Ed25519Fulfillment ''Pa'' None)"
  let ?pk = "PList [PStr ''Pa'']"
  let ?res = "\<lambda>s. (case int_of_str ?E s of
               None \<Rightarrow> Inl AmountError
             | Some n \<Rightarrow>
                 if 1 \<le> n \<and> n \<le> 9 * 10 ^ 18
                 then Inr \<lparr>output_fulfillment = ?ff, output_amount = n, output_public_keys = ?pk\<rparr>
                 else Inl AmountError)"
  have hyp: "Output_from_dict_fulfillment ?E (demo_output_dict s) = Inr ?ff
        \<and> py_getitem (demo_output_dict s) ''amount'' = Inr (PStr s)
        \<and> py_getitem (demo_output_dict s) ''public_keys'' = Inr ?pk \<and> (is_list ?pk \<or> ?pk = PNone)" for s
    by (simp add: Output_from_dict_fulfillment_def demo_output_dict_def demo_env_def)
  have res: "Output_from_dict ?E (demo_output_dict s) = ?res s" for s
    using output_amount_bounds[of ?ff ?pk 1 ?E demo_output "demo_output_dict s" ?ff s ?pk] hyp[of s]
    by blast
  have e1: "?res ''1'' = Inr demo_output"
    by (simp add: demo_env_def decimal_of_str_def demo_output_def)
  have e2: "?res ''a'' = Inl AmountError"
    by (simp add: demo_env_def decimal_of_str_def)
  have e3: "?res ''0'' = Inl AmountError"
    by (simp add: demo_env_def decimal_of_str_def)
  have e4: "?res ''9000000000000000001'' = Inl AmountError"
    by (simp add: demo_env_def decimal_of_str_def)
  have d: "Output_to_dict ?E demo_output = demo_output_dict ''1''"
    by code_simp
  have nn: "(0::int) \<le> 9000000000000000000" by simp
  from output_amount_bounds[of ?ff ?pk 9000000000000000000 ?E demo_output "demo_output_dict ''1''" ?ff "''1''" ?pk] nn
  have dec: "decimal_of_str (py_str 9000000000000000000) = Some 9000000000000000000"
    by blast
  from res[of "''1''"] e1 have r1: "Output_from_dict ?E (demo_output_dict ''1'') = Inr demo_output"
    by (rule trans)
  from res[of "''a''"] e2 have r2: "Output_from_dict ?E (demo_output_dict ''a'') = Inl AmountError"
    by (rule trans)
  from res[of "''0''"] e3 have r3: "Output_from_dict ?E (demo_output_dict ''0'') = Inl AmountError"
    by (rule trans)
  from res[of "''9000000000000000001''"] e4
  have r4: "Output_from_dict ?E (demo_output_dict ''9000000000000000001'') = Inl AmountError"
    by (rule trans)
  from r1 r2 r3 r4 d dec show ?thesis by blast
qed

theorem output_init_public_keys_counterexample:
  "(1::int) \<le> 1 \<and> (1::int) \<le> 9 * 10 ^ 18
   \<and> Output_init (PStr ''cc:E(Pa)'') (PStr ''Pa'') 1 = Inl TypeError
   \<and> Output_from_dict (demo_env [])
        (PDict [(''public_keys'', PStr ''Pa''), (''condition'', PDict [(''uri'', PStr ''cc:E(Pa)'')]),
                (''amount'', PStr ''0'')]) = Inl TypeError"
  by code_simp

section \<open>Generated conditions\<close>

lemma gen_condition_spec:
  "\<And>k subs. initial = ThresholdSha256Fulfillment k subs \<Longrightarrow> leaves_ok x \<Longrightarrow>
     gen_condition initial x =
       (if short_free x then Inr (ThresholdSha256Fulfillment k (subs @ [spec_node x])) else Inl ValueError)"
  "\<And>k subs. initial' = ThresholdSha256Fulfillment k subs \<Longrightarrow> list_all leaves_ok xs \<Longrightarrow>
     reduce_gen_condition xs initial' =
       (if list_all short_free xs then Inr (ThresholdSha256Fulfillment k (subs @ map spec_node xs))
        else Inl ValueError)"
  by (induction initial x and xs initial' rule: gen_condition_reduce_gen_condition.induct)
     (auto split: sum.splits)


lemma leaf_or_self_spec: "leaves_ok k \<Longrightarrow> \<not> is_list k \<Longrightarrow> leaf_or_self k = PObj (spec_node k)"
  by (cases k) auto

lemma not_list_short_free: "\<not> is_list k \<Longrightarrow> short_free k"
  by (cases k) auto

text \<open>
  Claim C8, amended. For an amount within bounds and an owner list whose leaves are
  public keys or pre-built condition nodes, \<^verbatim>\<open>Output.generate\<close> raises ValueError when the
  list is empty or holds, at any depth, a sublist of fewer than two items; for a single
  item that is no sublist it returns that item's node with no enclosing threshold (a
  bare Ed25519 leaf for a public key, the pre-built node itself otherwise); in every
  other case it returns the N-of-N threshold over the N items, every sublist
  contributing, as one item, its own threshold subtree built the same way.
\<close>

theorem generate_condition_tree:
  assumes "1 \<le> amount" and "amount \<le> 9 * 10 ^ 18" and "list_all leaves_ok keys"
  shows "Output_generate (PList keys) amount =
     (if keys = [] \<or> \<not> list_all short_free keys then Inl ValueError
      else if length keys = 1 \<and> \<not> is_list (hd keys)
        then Inr \<lparr>output_fulfillment = PObj (spec_node (hd keys)), output_amount = amount,
                  output_public_keys = PList keys\<rparr>
      else Inr \<lparr>output_fulfillment =
                  PObj (ThresholdSha256Fulfillment (length keys) (map spec_node keys)),
                output_amount = amount, output_public_keys = PList keys\<rparr>)"
proof (cases keys)
  case Nil
  with assms show ?thesis by (simp add: Output_generate_def)
next
  case (Cons k ks)
  show ?thesis
  proof (cases "ks = [] \<and> \<not> is_list k")
    case True
    with Cons assms show ?thesis
      by (simp add: Output_generate_def Output_init_def MAX_AMOUNT_def leaf_or_self_spec
          not_list_short_free)
  next
    case False
    have red: "reduce_gen_condition keys (ThresholdSha256Fulfillment (length keys) []) =
       (if list_all short_free keys
        then Inr (ThresholdSha256Fulfillment (length keys) ([] @ map spec_node keys))
        else Inl ValueError)"
      using assms(3) by (rule gen_condition_spec(2)[OF refl])
    from False Cons have br: "\<not> (length keys = 1 \<and> \<not> is_list (hd keys))" by auto
    have "Output_generate (PList keys) amount =
       (case reduce_gen_condition keys (ThresholdSha256Fulfillment (length keys) []) of
          Inl e \<Rightarrow> Inl e
        | Inr threshold_cond \<Rightarrow> Output_init (PObj threshold_cond) (PList keys) amount)"
      using False Cons assms(1) by (auto simp: Output_generate_def)
    also have "\<dots> = (if \<not> list_all short_free keys then Inl ValueError
      else Inr \<lparr>output_fulfillment =
                  PObj (ThresholdSha256Fulfillment (length keys) (map spec_node keys)),
                output_amount = amount, output_public_keys = PList keys\<rparr>)"
      unfolding red using assms(1,2) by (simp add: Output_init_def MAX_AMOUNT_def)
    finally show ?thesis using br Cons by auto
  qed
qed


theorem generate_condition_tree_witness:
  "Output_generate (PList [PStr ''Pa'', PList [PStr ''Pb'', PObj (Ed25519Fulfillment ''Pc'' None)]]) 1
     = Inr \<lparr>output_fulfillment = PObj (ThresholdSha256Fulfillment 2
                 [Ed25519Fulfillment ''Pa'' None,
                  ThresholdSha256Fulfillment 2 [Ed25519Fulfillment ''Pb'' None, Ed25519Fulfillment ''Pc'' None]]),
              output_amount = 1,
              output_public_keys = PList [PStr ''Pa'', PList [PStr ''Pb'', PObj (Ed25519Fulfillment ''Pc'' None)]]\<rparr>
   \<and> Output_generate (PList [PStr ''Pa'']) 1
     = Inr \<lparr>output_fulfillment = PObj (Ed25519Fulfillment ''Pa'' None), output_amount = 1,
              output_public_keys = PList [PStr ''Pa'']\<rparr>
   \<and> Output_generate (PList [PList [PStr ''Pa'']]) 1 = Inl ValueError
   \<and> Output_generate (PList [PStr ''Pa'', PList [PStr ''Pb'', PList [PStr ''Pc'']]]) 1 = Inl ValueError"
proof -
  have a: "(1::int) \<le> 1" and b: "(1::int) \<le> 9 * 10 ^ 18" by simp_all
  have l1: "list_all leaves_ok [PStr ''Pa'', PList [PStr ''Pb'', PObj (Ed25519Fulfillment ''Pc'' None)]]"
    and l2: "list_all leaves_ok [PStr ''Pa'']"
    and l3: "list_all leaves_ok [PList [PStr ''Pa'']]"
    and l4: "list_all leaves_ok [PStr ''Pa'', PList [PStr ''Pb'', PList [PStr ''Pc'']]]"
    by simp_all
  show ?thesis
    using generate_condition_tree[OF a b l1] generate_condition_tree[OF a b l2]
      generate_condition_tree[OF a b l3] generate_condition_tree[OF a b l4]
    by simp
qed

theorem generate_single_prebuilt_counterexample:
  "Output_generate
     (PList [PObj (ThresholdSha256Fulfillment 2 [Ed25519Fulfillment ''Pa'' None, Ed25519Fulfillment ''Pb'' None])]) 1
     = Inr \<lparr>output_fulfillment =
               PObj (ThresholdSha256Fulfillment 2 [Ed25519Fulfillment ''Pa'' None, Ed25519Fulfillment ''Pb'' None]),
              output_amount = 1,
              output_public_keys =
               PList [PObj (ThresholdSha256Fulfillment 2 [Ed25519Fulfillment ''Pa'' None, Ed25519Fulfillment ''Pb'' None])]\<rparr>
   \<and> \<not> is_list (PObj (ThresholdSha256Fulfillment 2 [Ed25519Fulfillment ''Pa'' None, Ed25519Fulfillment ''Pb'' None]))
   \<and> \<not> is_ed25519_leaf
         (PObj (ThresholdSha256Fulfillment 2 [Ed25519Fulfillment ''Pa'' None, Ed25519Fulfillment ''Pb'' None]))"
  by code_simp

section \<open>validate_id leaves its argument alone\<close>

lemma st_strip_items_frame:
  "st_strip_items c i xs s = (r, s') \<Longrightarrow> length s' = length s \<and> (\<forall>j. j \<noteq> c \<longrightarrow> s' ! j = s ! j)"
proof (induction xs arbitrary: i s)
  case Nil
  then show ?case by simp
next
  case (Cons x xs)
  show ?case
  proof (cases "strip_input x")
    case (Inl e)
    with Cons.prems show ?thesis by simp
  next
    case (Inr x')
    with Cons.prems have "st_strip_items c (Suc i) xs (s[c := put_input (s ! c) i x']) = (r, s')"
      by simp
    from Cons.IH[OF this] show ?thesis by simp
  qed
qed

lemma st_strip_items_take:
  assumes "st_strip_items c i xs s = (r, s')" and "n \<le> c"
  shows "take n s' = take n s"
proof -
  from st_strip_items_frame[OF assms(1)]
  have len: "length s' = length s" and same: "\<And>j. j \<noteq> c \<Longrightarrow> s' ! j = s ! j" by auto
  show ?thesis
    using len same assms(2) by (auto simp: list_eq_iff_nth_eq)
qed

lemma st_remove_signatures_frame:
  assumes "st_remove_signatures a s = (r, s')"
  shows "take (length s) s' = s"
proof -
  obtain q where q: "bind_err (py_getitem ((s @ [s ! a]) ! length s) ''inputs'') py_iter = q" by simp
  show ?thesis
  proof (cases q)
    case (Inl e)
    with assms q show ?thesis by (auto simp: st_remove_signatures_def st_deepcopy_def)
  next
    case (Inr items)
    obtain r2 s2 where l: "st_strip_items (length s) 0 items (s @ [s ! a]) = (r2, s2)"
      by (cases "st_strip_items (length s) 0 items (s @ [s ! a])") auto
    from st_strip_items_take[OF l, of "length s"] have "take (length s) s2 = s" by simp
    moreover from assms q Inr l have "s' = s2"
      by (cases r2) (auto simp: st_remove_signatures_def st_deepcopy_def)
    ultimately show ?thesis by simp
  qed
qed

lemma st_validate_id_frame:
  "take (length s) (snd (st_validate_id E a s)) = s"
proof -
  let ?s1 = "s @ [s ! a]"
  obtain r2 s2 where p: "st_pop (length s) ''id'' ?s1 = (r2, s2)"
    by (cases "st_pop (length s) ''id'' ?s1") auto
  have s2: "take (length s) s2 = s \<and> length s2 = Suc (length s)"
    using p by (auto simp: st_pop_def split: sum.splits prod.splits)
  show ?thesis
  proof (cases r2)
    case (Inl e)
    with p s2 show ?thesis by (simp add: st_validate_id_def st_deepcopy_def)
  next
    case (Inr proposed)
    obtain r3 s3 where r: "st_remove_signatures (length s) s2 = (r3, s3)"
      by (cases "st_remove_signatures (length s) s2") auto
    from st_remove_signatures_frame[OF r] have "take (length s2) s3 = s2" .
    then have "take (length s) (take (length s2) s3) = take (length s) s2" by simp
    with s2 have "take (length s) s3 = s" by (simp add: min_def)
    with p Inr r show ?thesis
      by (cases r3) (simp_all add: st_validate_id_def st_deepcopy_def Let_def)
  qed
qed


lemma map_of_dict_set: "map_of (dict_set kvs k v) k = Some v"
  by (induction kvs) auto

lemma dict_set_dict_set: "dict_set (dict_set kvs k v) k w = dict_set kvs k w"
  by (induction kvs) auto

lemma dict_set_same:
  "map_of kvs k = Some v \<Longrightarrow> dict_set kvs k v = kvs"
  by (induction kvs) (auto split: if_splits)

lemma st_strip_items_result:
  "fst (st_strip_items c i xs s) = (case map_err strip_input xs of Inl e \<Rightarrow> Inl e | Inr ys \<Rightarrow> Inr ())"
  by (induction xs arbitrary: i s) (auto split: sum.splits)

lemma st_strip_items_list:
  assumes "c < length s" and "s ! c = PDict kvs"
    and "map_of kvs ''inputs'' = Some (PList (pre @ xs))" and "i = length pre"
    and "map_err strip_input xs = Inr xs'"
  shows "snd (st_strip_items c i xs s) ! c = PDict (dict_set kvs ''inputs'' (PList (pre @ xs')))"
  using assms
proof (induction xs arbitrary: pre s kvs i xs')
  case Nil
  then show ?case
    by (simp add: dict_set_same)
next
  case (Cons x xs)
  from Cons.prems(5) obtain x' ys where x': "strip_input x = Inr x'"
    and ys: "map_err strip_input xs = Inr ys" and xs': "xs' = x' # ys"
    by (auto split: sum.splits)
  let ?kvs2 = "dict_set kvs ''inputs'' (PList ((pre @ [x']) @ xs))"
  let ?s2 = "s[c := put_input (s ! c) i x']"
  have put: "put_input (s ! c) i x' = PDict ?kvs2"
    using Cons.prems(2,3,4) by simp
  have a: "c < length ?s2" using Cons.prems(1) by simp
  have b: "?s2 ! c = PDict ?kvs2" using Cons.prems(1) put by simp
  have m: "map_of ?kvs2 ''inputs'' = Some (PList ((pre @ [x']) @ xs))" by (rule map_of_dict_set)
  have l: "Suc i = length (pre @ [x'])" using Cons.prems(4) by simp
  from Cons.IH[OF a b m l ys]
  have "snd (st_strip_items c (Suc i) xs ?s2) ! c = PDict (dict_set ?kvs2 ''inputs'' (PList ((pre @ [x']) @ ys)))" .
  then show ?case
    using x' xs' by (simp add: dict_set_dict_set)
qed

lemma py_iter_not_list_items:
  assumes "py_iter v = Inr items" and "\<not> is_list v" and "map_err strip_input items = Inr ys"
  shows "items = []"
proof (cases items)
  case Nil
  then show ?thesis .
next
  case (Cons x xs)
  with assms(1,2) obtain t where "x = PStr t" by (cases v) auto
  with Cons assms(3) show ?thesis by simp
qed

lemma st_remove_signatures_value:
  assumes "a < length s"
  shows "(case remove_signatures (s ! a) of
            Inl e \<Rightarrow> fst (st_remove_signatures a s) = Inl e
          | Inr v \<Rightarrow> fst (st_remove_signatures a s) = Inr (length s)
                     \<and> snd (st_remove_signatures a s) ! length s = v)"
proof (cases "py_getitem (s ! a) ''inputs''")
  case (Inl e)
  then show ?thesis
    by (simp add: remove_signatures_def st_remove_signatures_def st_deepcopy_def)
next
  case (Inr ins)
  then obtain kvs where kvs: "s ! a = PDict kvs" and ins: "map_of kvs ''inputs'' = Some ins"
    by (cases "s ! a") (auto split: option.splits)
  show ?thesis
  proof (cases "py_iter ins")
    case (Inl e)
    with Inr show ?thesis
      by (simp add: remove_signatures_def st_remove_signatures_def st_deepcopy_def)
  next
    case it: (Inr items)
    let ?s1 = "s @ [s ! a]"
    obtain r2 s2 where l: "st_strip_items (length s) 0 items ?s1 = (r2, s2)"
      by (cases "st_strip_items (length s) 0 items ?s1") auto
    have r2: "r2 = (case map_err strip_input items of Inl e \<Rightarrow> Inl e | Inr ys \<Rightarrow> Inr ())"
      using st_strip_items_result[of "length s" 0 items ?s1] l by simp
    show ?thesis
    proof (cases "map_err strip_input items")
      case (Inl e)
      with Inr it l r2 kvs show ?thesis
        by (simp add: remove_signatures_def st_remove_signatures_def st_deepcopy_def)
    next
      case ys: (Inr ys)
      have fstr: "fst (st_remove_signatures a s) = Inr (length s)"
        using Inr it l r2 ys by (simp add: st_remove_signatures_def st_deepcopy_def)
      have sndr: "snd (st_remove_signatures a s) = s2"
        using Inr it l r2 ys by (simp add: st_remove_signatures_def st_deepcopy_def)
      show ?thesis
      proof (cases "is_list ins")
        case True
        then have insl: "ins = PList items" using it by (cases ins) auto
        have "snd (st_strip_items (length s) 0 items ?s1) ! length s
                = PDict (dict_set kvs ''inputs'' (PList ([] @ ys)))"
          by (rule st_strip_items_list[where pre="[]"]) (use kvs ins insl ys in auto)
        with l have "s2 ! length s = PDict (dict_set kvs ''inputs'' (PList ys))" by simp
        with fstr sndr Inr it ys kvs True show ?thesis
          by (simp add: remove_signatures_def)
      next
        case False
        from py_iter_not_list_items[OF it False ys] have "items = []" .
        with l have "s2 = ?s1" by simp
        with fstr sndr Inr it ys kvs False show ?thesis
          by (simp add: remove_signatures_def)
      qed
    qed
  qed
qed

lemma st_validate_id_value:
  assumes "a < length s"
  shows "fst (st_validate_id E a s) = validate_id E (s ! a)"
proof (cases "py_pop (s ! a) ''id''")
  case (Inl e)
  then show ?thesis
    by (simp add: st_validate_id_def validate_id_def st_deepcopy_def st_pop_def)
next
  case (Inr p)
  obtain proposed body where p: "p = (proposed, body)" by (cases p)
  let ?s2 = "(s @ [s ! a])[length s := body]"
  have b: "?s2 ! length s = body" by simp
  have lt: "length s < length ?s2" by simp
  note rv = st_remove_signatures_value[OF lt]
  show ?thesis
  proof (cases "remove_signatures body")
    case (Inl e)
    with rv b have "fst (st_remove_signatures (length s) ?s2) = Inl e" by simp
    then obtain s3 where "st_remove_signatures (length s) ?s2 = (Inl e, s3)"
      by (cases "st_remove_signatures (length s) ?s2") auto
    with Inr p Inl show ?thesis
      by (simp add: st_validate_id_def validate_id_def st_deepcopy_def st_pop_def)
  next
    case (Inr v)
    with rv b have "fst (st_remove_signatures (length s) ?s2) = Inr (length ?s2)"
      and "snd (st_remove_signatures (length s) ?s2) ! length ?s2 = v" by simp_all
    then obtain s3 where s3: "st_remove_signatures (length s) ?s2 = (Inr (length ?s2), s3)"
      and v: "s3 ! length ?s2 = v"
      by (cases "st_remove_signatures (length s) ?s2") auto
    from \<open>py_pop (s ! a) ''id'' = Inr p\<close> p Inr s3 v show ?thesis
      by (simp add: st_validate_id_def validate_id_def st_deepcopy_def st_pop_def Let_def)
  qed
qed


text \<open>
  Claim C10. Whatever \<^verbatim>\<open>validate_id\<close> answers, every object that was in the store before
  the call is the same afterwards, the caller's map among them (with its \<^verbatim>\<open>id\<close> and its
  inputs' fulfillments, which are part of its value). The answer is that of the function
  on values: InvalidHash for a map without an \<^verbatim>\<open>id\<close>, and for a map whose body can be
  stripped InvalidHash exactly when the \<^verbatim>\<open>id\<close> differs from the recomputed one.
\<close>

theorem validate_id_frame:
  "take (length s) (snd (st_validate_id E a s)) = s
   \<and> (a < length s \<longrightarrow>
        snd (st_validate_id E a s) ! a = s ! a
        \<and> fst (st_validate_id E a s) = validate_id E (s ! a))
   \<and> (a < length s \<and> s ! a = PDict kvs \<and> map_of kvs ''id'' = None \<longrightarrow>
        fst (st_validate_id E a s) = Inl InvalidHash)
   \<and> (a < length s \<and> s ! a = PDict kvs \<and> map_of kvs ''id'' = Some proposed
        \<and> remove_signatures (PDict (dict_del kvs ''id'')) = Inr body \<longrightarrow>
        fst (st_validate_id E a s) =
          (if proposed = PStr (hash_data E (serialize E body)) then Inr () else Inl InvalidHash))"
proof (intro conjI impI)
  show fr: "take (length s) (snd (st_validate_id E a s)) = s"
    by (rule st_validate_id_frame)
  show "snd (st_validate_id E a s) ! a = s ! a" if "a < length s"
  proof -
    from that have "take (length s) (snd (st_validate_id E a s)) ! a = snd (st_validate_id E a s) ! a"
      by simp
    with fr show ?thesis by simp
  qed
  show "fst (st_validate_id E a s) = validate_id E (s ! a)" if "a < length s"
    using that by (rule st_validate_id_value)
  show "fst (st_validate_id E a s) = Inl InvalidHash"
    if "a < length s \<and> s ! a = PDict kvs \<and> map_of kvs ''id'' = None"
    using that by (simp add: st_validate_id_value validate_id_def)
  show "fst (st_validate_id E a s) =
          (if proposed = PStr (hash_data E (serialize E body)) then Inr () else Inl InvalidHash)"
    if "a < length s \<and> s ! a = PDict kvs \<and> map_of kvs ''id'' = Some proposed
        \<and> remove_signatures (PDict (dict_del kvs ''id'')) = Inr body"
    using that by (simp add: st_validate_id_value validate_id_def Let_def)
qed

theorem validate_id_frame_witness:
  "fst (st_validate_id (demo_env []) 0 [demo_create_dict]) = Inr ()
   \<and> snd (st_validate_id (demo_env []) 0 [demo_create_dict]) ! 0 = demo_create_dict
   \<and> fst (st_validate_id (demo_env []) 0 [demo_tampered_dict]) = Inl InvalidHash
   \<and> snd (st_validate_id (demo_env []) 0 [demo_tampered_dict]) ! 0 = demo_tampered_dict
   \<and> fst (st_validate_id (demo_env []) 0 [PDict [(''inputs'', PList [])]]) = Inl InvalidHash
   \<and> snd (st_validate_id (demo_env []) 0 [PDict [(''inputs'', PList [])]]) ! 0 = PDict [(''inputs'', PList [])]"
proof -
  have l: "(0::nat) < length [x]" for x :: pyval by simp
  have v1: "validate_id (demo_env []) demo_create_dict = Inr ()" by code_simp
  have v2: "validate_id (demo_env []) demo_tampered_dict = Inl InvalidHash" by code_simp
  have m: "(0::nat) < length [PDict [(''inputs'', PList [])]]
     \<and> [PDict [(''inputs'', PList [])]] ! 0 = PDict [(''inputs'', PList [])]
     \<and> map_of [(''inputs'', PList [])] ''id'' = None" by simp
  note t1 = validate_id_frame[of "[demo_create_dict]" "demo_env []" 0]
  note t2 = validate_id_frame[of "[demo_tampered_dict]" "demo_env []" 0]
  note t3 = validate_id_frame[of "[PDict [(''inputs'', PList [])]]" "demo_env []" 0 "[(''inputs'', PList [])]"]
  from t1 l have a: "snd (st_validate_id (demo_env []) 0 [demo_create_dict]) ! 0 = [demo_create_dict] ! 0"
    and a': "fst (st_validate_id (demo_env []) 0 [demo_create_dict]) = validate_id (demo_env []) ([demo_create_dict] ! 0)"
    by blast+
  from t2 l have b: "snd (st_validate_id (demo_env []) 0 [demo_tampered_dict]) ! 0 = [demo_tampered_dict] ! 0"
    and b': "fst (st_validate_id (demo_env []) 0 [demo_tampered_dict]) = validate_id (demo_env []) ([demo_tampered_dict] ! 0)"
    by blast+
  from t3 m have c: "snd (st_validate_id (demo_env []) 0 [PDict [(''inputs'', PList [])]]) ! 0
        = [PDict [(''inputs'', PList [])]] ! 0"
    and c': "fst (st_validate_id (demo_env []) 0 [PDict [(''inputs'', PList [])]]) = Inl InvalidHash"
    by blast+
  from a a' b b' c c' v1 v2 show ?thesis by simp
qed

section \<open>Validation of the inputs\<close>

lemma all_gen_tx_True_iff:
  "all_gen_tx E T xs = Inr True \<longleftrightarrow>
     (\<forall>x\<in>set xs. gen_tx E T (fst x) (fst (snd x)) (snd (snd x)) = Inr True)"
proof (induction xs)
  case Nil
  then show ?case by simp
next
  case (Cons x xs)
  obtain i out u where x: "x = (i, out, u)" by (cases x) auto
  show ?case
    using Cons.IH by (cases "gen_tx E T i out u") (auto simp: x)
qed

lemma inputs_valid_uris_True_iff:
  "inputs_valid_uris E T uris = Inr True \<longleftrightarrow>
     length (tx_inputs T) = length uris
     \<and> (\<forall>i. i < length (tx_inputs T) \<and> i < length (tx_outputs T) \<longrightarrow>
           gen_tx E T (tx_inputs T ! i) (tx_outputs T ! i) (uris ! i) = Inr True)"
proof (cases "length (tx_inputs T) = length uris")
  case False
  then show ?thesis by (simp add: inputs_valid_uris_def)
next
  case True
  have "(\<forall>x\<in>set (zip (tx_inputs T) (zip (tx_outputs T) uris)).
            gen_tx E T (fst x) (fst (snd x)) (snd (snd x)) = Inr True)
        \<longleftrightarrow> (\<forall>i. i < length (tx_inputs T) \<and> i < length (tx_outputs T) \<longrightarrow>
           gen_tx E T (tx_inputs T ! i) (tx_outputs T ! i) (uris ! i) = Inr True)"
    unfolding all_set_conv_all_nth using True by auto
  with True show ?thesis
    by (simp add: inputs_valid_uris_def all_gen_tx_True_iff)
qed

text \<open>
  Claim C2 on a TRANSFER with two inputs and one output. \<^verbatim>\<open>_inputs_valid\<close> maps \<^verbatim>\<open>gen_tx\<close>
  over the inputs, the transaction's own outputs and the condition URIs together, so
  it looks at no more inputs than the transaction has outputs: the second input below
  carries a forged signature and is invalid on its own, the referenced outputs are as
  many as the inputs, and the verdict is True.
\<close>

theorem inputs_valid_skips_inputs:
  "length (tx_inputs (demo_transfer [demo_signed_input0, demo_forged_input1])) = 2
   \<and> length demo_referenced_outputs = 2
   \<and> length (tx_outputs (demo_transfer [demo_signed_input0, demo_forged_input1])) = 1
   \<and> gen_tx demo_transfer_env (demo_transfer [demo_signed_input0, demo_forged_input1])
        demo_forged_input1 (hd demo_referenced_outputs) (PStr ''cc:E(Pb)'') = Inr False
   \<and> inputs_valid demo_transfer_env (demo_transfer [demo_signed_input0, demo_forged_input1])
        (Some demo_referenced_outputs) = Inr True"
  by code_simp

section \<open>Signing an input\<close>





















section \<open>The signing ceremony\<close>

lemma partial_message_inputs_upd [simp]:
  "partial_message E (T\<lparr>tx_inputs := l\<rparr>) inp = partial_message E T inp"
  by (simp add: partial_message_def)

lemma sign_round_inputs_upd [simp]:
  "sign_round E kp (T\<lparr>tx_inputs := l\<rparr>) = sign_round E kp T"
  by (rule ext) (simp add: sign_round_def)









lemma Transaction_init_Inr:
  "Transaction_init E (tx_operation T) (tx_asset T) [inp] (tx_outputs T) (tx_metadata T) (tx_version T)
     = Inr Tp \<Longrightarrow> Tp = partial_transaction E T inp"
  by (auto simp: Transaction_init_def partial_transaction_def split: if_splits)

lemma remove_signatures_to_dict:
  assumes "Transaction_to_dict E T = Inr d"
  shows "remove_signatures d =
     Inr (PDict [(''inputs'', PList (map stripped_input_dict (tx_inputs T))),
                 (''outputs'', PList (map (Output_to_dict E) (tx_outputs T))),
                 (''operation'', PStr (tx_operation T)),
                 (''metadata'', tx_metadata T),
                 (''asset'', tx_asset T),
                 (''version'', tx_version T),
                 (''id'', PStr (hash_data E (serialize E (signature_stripped_body E T))))])"
proof -
  from to_dict_shape[OF assms] obtain ins where
    ins: "map_err (Input_to_dict E) (tx_inputs T) = Inr ins" and
    d: "d = PDict [(''inputs'', PList ins),
                 (''outputs'', PList (map (Output_to_dict E) (tx_outputs T))),
                 (''operation'', PStr (tx_operation T)),
                 (''metadata'', tx_metadata T),
                 (''asset'', tx_asset T),
                 (''version'', tx_version T),
                 (''id'', PStr (hash_data E (serialize E (signature_stripped_body E T))))]"
    by blast
  show ?thesis unfolding d by (rule remove_signatures_body[OF ins])
qed

lemma partial_message_value:
  assumes "partial_message E T inp = Inr msg"
  shows "msg = signing_message E T inp"
proof -
  from assms obtain Tp d d' where
    tp: "Transaction_init E (tx_operation T) (tx_asset T) [inp] (tx_outputs T) (tx_metadata T) (tx_version T) = Inr Tp"
    and d: "Transaction_to_dict E Tp = Inr d"
    and d': "remove_signatures d = Inr d'" and msg: "msg = serialize E d'"
    by (auto simp: partial_message_def bind_err_Inr_iff)
  from Transaction_init_Inr[OF tp] have Tp: "Tp = partial_transaction E T inp" .
  from remove_signatures_to_dict[OF d] d' msg show ?thesis
    unfolding Tp signing_message_def signature_stripped_body_def by simp
qed

lemma partial_message_cases:
  "partial_message E T inp =
     (case Transaction_init E (tx_operation T) (tx_asset T) [inp] (tx_outputs T) (tx_metadata T) (tx_version T) of
        Inl e \<Rightarrow> Inl e
      | Inr Tp \<Rightarrow>
          (case Input_to_dict E inp of
             Inl e \<Rightarrow> Inl e
           | Inr d \<Rightarrow> Inr (signing_message E T inp)))"
proof (cases "Transaction_init E (tx_operation T) (tx_asset T) [inp] (tx_outputs T) (tx_metadata T) (tx_version T)")
  case (Inl e)
  then show ?thesis by (simp add: partial_message_def)
next
  case (Inr Tp)
  from Transaction_init_Inr[OF Inr] have Tp: "Tp = partial_transaction E T inp" .
  show ?thesis
  proof (cases "Input_to_dict E inp")
    case (Inl e)
    then have "Transaction_to_dict E Tp = Inl e"
      unfolding Tp by (simp add: Transaction_to_dict_def partial_transaction_def)
    with Inr Inl show ?thesis by (simp add: partial_message_def)
  next
    case ok: (Inr di)
    then have "map_err (Input_to_dict E) (tx_inputs Tp) = Inr [di]"
      unfolding Tp by (simp add: partial_transaction_def)
    from to_dict_value[OF this] obtain d where d: "Transaction_to_dict E Tp = Inr d" by blast
    from remove_signatures_to_dict[OF d] obtain d' where d': "remove_signatures d = Inr d'" by blast
    from Inr d d' have pm: "partial_message E T inp = Inr (serialize E d')"
      by (simp add: partial_message_def)
    from partial_message_value[OF pm] pm Inr ok show ?thesis by simp
  qed
qed








end
